theory Spec2Isabelle
  imports Complex_Main
begin

section \<open>Python values\<close>

text \<open>
  Exceptions of the quantizer code. The three with a message are raised by the source
  itself (\<open>raise\<close>, \<open>assert\<close>); the others come from the interpreter on an attribute of
  \<open>None\<close> or of a list, an index into an empty list, \<open>None + str\<close>, or a missing dictionary key.
\<close>

datatype error =
    RuntimeError string
  | ValueError string
  | AssertionError string
  | AttributeError
  | IndexError
  | KeyError
  | TypeError

text \<open>
  A method that raises leaves the object as mutated so far: an outcome is the object
  after the call together with the exception, if one was raised.
\<close>

type_synonym 's outcome = "'s \<times> error option"

text \<open>\<open>libpymo.TfEncoding\<close>: min, max, delta, offset and bit-width.\<close>

record TfEncoding =
  enc_min :: real
  enc_max :: real
  enc_delta :: real
  enc_offset :: real
  bw :: nat

text \<open>
  What an \<open>encoding\<close> attribute or argument can hold: \<open>None\<close>, one encoding, or a list.
\<close>

datatype pyenc = PyNone | PyEnc TfEncoding | PyList "pyenc list"

text \<open>Python truthiness, as tested by \<open>if self._encoding\<close> and \<open>if not self._encoding\<close>.\<close>

fun truthy :: "pyenc \<Rightarrow> bool" where
  "truthy PyNone = False"
| "truthy (PyEnc e) = True"
| "truthy (PyList xs) = (xs \<noteq> [])"

datatype QuantizationDataType = DT_int | DT_float

section \<open>Tensors\<close>

text \<open>
  A tensor of the host runtime is modelled by its shape and its element at every
  multi-index (one coordinate per axis, a 0-dimensional tensor has the single index \<open>[]\<close>).
  Operations are total; on shapes that do not broadcast, where the runtime raises, the
  model's result has no meaning and the theorems below assume well-formed shapes.
\<close>

record 'a tensor =
  shape :: "nat list"
  elem :: "nat list \<Rightarrow> 'a"

text \<open>All multi-indices of a shape, in row-major order.\<close>

definition indices :: "nat list \<Rightarrow> nat list list" where
  "indices s = product_lists (map (\<lambda>d. [0..<d]) s)"

text \<open>\<open>len(t)\<close> is the size of the first axis.\<close>

definition len :: "'a tensor \<Rightarrow> nat" where
  "len t = (case shape t of [] \<Rightarrow> 0 | d # _ \<Rightarrow> d)"

text \<open>
  Broadcasting: shapes are aligned at their last axis, the shorter one is padded with
  ones in front, and an axis of size one is stretched to the other operand's size. The
  operand's element paired with index \<open>i\<close> of the result is the one at \<open>bidx\<close>: the
  coordinates of the operand's own axes, with \<open>0\<close> on every stretched axis.
\<close>

definition pad :: "nat \<Rightarrow> nat list \<Rightarrow> nat list" where
  "pad n s = replicate (n - length s) 1 @ s"

definition bshape :: "nat list \<Rightarrow> nat list \<Rightarrow> nat list" where
  "bshape a b = map2 (\<lambda>x y. if x = 1 then y else x) (pad (length b) a) (pad (length a) b)"

definition bidx :: "nat list \<Rightarrow> nat list \<Rightarrow> nat list" where
  "bidx s i = map2 (\<lambda>d k. if d = 1 then 0 else k) s (drop (length i - length s) i)"

definition bcast :: "'a tensor \<Rightarrow> nat list \<Rightarrow> 'a" where
  "bcast t i = elem t (bidx (shape t) i)"

text \<open>Elementwise operations: with a Python scalar or alone, and between two tensors.\<close>

definition tmap :: "('a \<Rightarrow> 'b) \<Rightarrow> 'a tensor \<Rightarrow> 'b tensor" where
  "tmap f t = \<lparr>shape = shape t, elem = (\<lambda>i. f (elem t i))\<rparr>"

definition tzip :: "('a \<Rightarrow> 'b \<Rightarrow> 'c) \<Rightarrow> 'a tensor \<Rightarrow> 'b tensor \<Rightarrow> 'c tensor" where
  "tzip f a b = \<lparr>shape = bshape (shape a) (shape b), elem = (\<lambda>i. f (bcast a i) (bcast b i))\<rparr>"

text \<open>\<open>torch.round\<close>: to the nearest integer, halves to the even one.\<close>

definition torch_round :: "real \<Rightarrow> real" where
  "torch_round x =
     (let f = \<lfloor>x\<rfloor>; d = x - of_int f
      in if d < 1 / 2 then of_int f
         else if 1 / 2 < d then of_int f + 1
         else if even f then of_int f else of_int f + 1)"

text \<open>\<open>x.clamp(lo, hi)\<close>; when \<open>lo > hi\<close> every element becomes \<open>hi\<close>.\<close>

definition clamp :: "real \<Rightarrow> real \<Rightarrow> real \<Rightarrow> real" where
  "clamp x lo hi = min (max x lo) hi"

text \<open>
  The element arithmetic of the host runtime. The learned-grid forward code computes in
  single precision, where every operation rounds its result and a division by zero or an
  overflow yields an infinity or NaN. Its functions are therefore written over an
  arbitrary element type \<open>'f\<close> and take the runtime's operations on it as a parameter:
  the four arithmetic operations, negation, \<open>torch.round\<close>, \<open>clamp\<close>, the comparisons
  \<open>ge\<close> and \<open>le\<close>, \<open>torch.pow\<close> with a Python integer as exponent, and the element
  that a Python number is converted to. Nothing is assumed about these operations.
\<close>

record 'f arith =
  f_add :: "'f \<Rightarrow> 'f \<Rightarrow> 'f"
  f_sub :: "'f \<Rightarrow> 'f \<Rightarrow> 'f"
  f_mul :: "'f \<Rightarrow> 'f \<Rightarrow> 'f"
  f_div :: "'f \<Rightarrow> 'f \<Rightarrow> 'f"
  f_neg :: "'f \<Rightarrow> 'f"
  f_round :: "'f \<Rightarrow> 'f"
  f_clamp :: "'f \<Rightarrow> 'f \<Rightarrow> 'f \<Rightarrow> 'f"
  f_ge :: "'f \<Rightarrow> 'f \<Rightarrow> bool"
  f_le :: "'f \<Rightarrow> 'f \<Rightarrow> bool"
  f_pow :: "'f \<Rightarrow> nat \<Rightarrow> 'f"
  f_num :: "int \<Rightarrow> 'f"

text \<open>
  The arithmetic of exact reals. The static-grid code and the gradient computation of the
  backward pass are modelled in it (rounding error, infinities and NaN are outside that
  part of the model), and the examples of a saved context below are evaluated in it; they
  divide by nothing that is zero, and single precision rounds their quotients to the same
  integers.
\<close>

definition exact :: "real arith" where
  "exact =
     \<lparr>f_add = (+), f_sub = (-), f_mul = (*), f_div = (/), f_neg = uminus,
      f_round = torch_round, f_clamp = clamp, f_ge = (\<lambda>x y. y \<le> x), f_le = (\<le>),
      f_pow = (\<lambda>x k. x ^ k), f_num = of_int\<rparr>"

text \<open>
  \<open>t.sum(dim=dims)\<close>: the axes in \<open>dims\<close> are summed away, the others are kept in order.
\<close>

definition keep_dims :: "nat list \<Rightarrow> 'a list \<Rightarrow> 'a list" where
  "keep_dims dims xs = map (\<lambda>k. xs ! k) (filter (\<lambda>k. k \<notin> set dims) [0..<length xs])"

definition tsum :: "nat list \<Rightarrow> real tensor \<Rightarrow> real tensor" where
  "tsum dims t =
     \<lparr>shape = keep_dims dims (shape t),
      elem = (\<lambda>j. sum_list (map (elem t) (filter (\<lambda>i. keep_dims dims i = j) (indices (shape t)))))\<rparr>"

text \<open>\<open>xs.pop(i)\<close> for a non-negative \<open>i\<close>, returning the list that is left.\<close>

definition py_pop :: "'a list \<Rightarrow> nat \<Rightarrow> error + 'a list" where
  "py_pop xs i = (if i < length xs then Inr (take i xs @ drop (Suc i) xs) else Inl IndexError)"

text \<open>\<open>t.select(axis, index)\<close> and \<open>torch.stack(ts, axis)\<close>.\<close>

definition tselect :: "nat \<Rightarrow> nat \<Rightarrow> 'a tensor \<Rightarrow> 'a tensor" where
  "tselect axis index t =
     \<lparr>shape = take axis (shape t) @ drop (Suc axis) (shape t),
      elem = (\<lambda>i. elem t (take axis i @ index # drop axis i))\<rparr>"

definition tstack :: "'a tensor list \<Rightarrow> nat \<Rightarrow> error + 'a tensor" where
  "tstack ts axis =
     (case ts of
        [] \<Rightarrow> Inl (RuntimeError ''stack expects a non-empty TensorList'')
      | t # _ \<Rightarrow>
          Inr \<lparr>shape = take axis (shape t) @ length ts # drop axis (shape t),
               elem = (\<lambda>i. elem (ts ! (i ! axis)) (take axis i @ drop (Suc axis) i))\<rparr>)"

text \<open>
  Modelled from the spec: \<open>broadcast_to_tensor\<close> of \<open>quantsim_straight_through_grad\<close> is not
  among the sources. The spec (4.1) has a per-channel vector broadcast to the channel axis
  of the target tensor by inserting singleton dimensions everywhere except the channel
  axis.
\<close>

definition broadcast_to_tensor :: "'b tensor \<Rightarrow> 'a tensor \<Rightarrow> nat \<Rightarrow> 'a tensor" where
  "broadcast_to_tensor tensor encoding ch_axis =
     \<lparr>shape = (replicate (length (shape tensor)) 1)[ch_axis := len encoding],
      elem = (\<lambda>i. elem encoding [i ! ch_axis])\<rparr>"

section \<open>TensorQuantizer\<close>

text \<open>
  The fields of the base class that the operations below read or write.
\<close>

record TensorQuantizer =
  use_symmetric_encodings :: bool
  use_strict_symmetric :: bool
  use_unsigned_symmetric :: bool
  bitwidth :: nat
  enabled :: bool
  data_type :: QuantizationDataType
  is_encoding_frozen :: bool

section \<open>StaticGridTensorQuantizer\<close>

text \<open>
  The native engine (\<open>AimetTensorQuantizer\<close>) is an external collaborator: its state is an
  arbitrary type \<open>'e\<close> and its methods are parameters.
\<close>

record 'e native =
  getEncoding :: "'e \<Rightarrow> nat \<Rightarrow> bool \<Rightarrow> bool \<Rightarrow> bool \<Rightarrow> TfEncoding \<times> bool"
  resetEncodingStats :: "'e \<Rightarrow> 'e"
  quantizeDequantize :: "'e \<Rightarrow> real tensor \<Rightarrow> pyenc \<Rightarrow> string \<Rightarrow> real tensor"

datatype sg_class = StaticGridPerTensorQuantizer | StaticGridPerChannelQuantizer

record 'e StaticGridTensorQuantizer = TensorQuantizer +
  sg_class :: sg_class
  cppOp :: "'e list"
  encoding_attr :: pyenc
  sg_ch_axis :: nat

text \<open>
  The two concrete classes; the base class has no native engine of its own (\<open>_cppOp\<close> is
  \<open>None\<close>) and is only inherited from.

  The encoding setter. The per-channel setter is the one of the base class; the per-tensor
  setter wraps anything but a one-element list into a list.
\<close>

definition sg_set_encoding ::
  "('e, 'x) StaticGridTensorQuantizer_scheme \<Rightarrow> pyenc \<Rightarrow> ('e, 'x) StaticGridTensorQuantizer_scheme outcome" where
  "sg_set_encoding q encoding =
     (if is_encoding_frozen q
      then (q, Some (RuntimeError ''Encoding can be set only when it is not frozen.''))
      else (case sg_class q of
              StaticGridPerChannelQuantizer \<Rightarrow> (q\<lparr>encoding_attr := encoding\<rparr>, None)
            | StaticGridPerTensorQuantizer \<Rightarrow>
                (case encoding of
                   PyList [x] \<Rightarrow> (q\<lparr>encoding_attr := encoding\<rparr>, None)
                 | _ \<Rightarrow> (q\<lparr>encoding_attr := PyList [encoding]\<rparr>, None))))"

text \<open>
  The loop of \<open>compute_encoding\<close> over the native engines. It carries \<open>self.enabled\<close> and the
  list \<open>self._encoding\<close>, which the caller has just set to \<open>[]\<close>.
\<close>

fun compute_encoding_loop ::
  "'e native \<Rightarrow> nat \<Rightarrow> bool \<Rightarrow> bool \<Rightarrow> bool \<Rightarrow> 'e list \<Rightarrow> bool \<times> TfEncoding list \<Rightarrow> bool \<times> TfEncoding list" where
  "compute_encoding_loop N b symm strict unsgn [] (en, encs) = (en, encs)"
| "compute_encoding_loop N b symm strict unsgn (op # ops) (en, encs) =
     (let (encoding, is_encoding_valid) = getEncoding N op b symm strict unsgn
      in if \<not> is_encoding_valid
         then compute_encoding_loop N b symm strict unsgn ops (False, encs)
         else compute_encoding_loop N b symm strict unsgn ops (en, encs @ [encoding]))"

definition compute_encoding ::
  "'e native \<Rightarrow> ('e, 'x) StaticGridTensorQuantizer_scheme \<Rightarrow> ('e, 'x) StaticGridTensorQuantizer_scheme outcome" where
  "compute_encoding N q =
     (if enabled q \<and> \<not> is_encoding_frozen q then
        (if data_type q = DT_float then (q\<lparr>encoding_attr := PyNone\<rparr>, None)
         else
           (let (en, encs) = compute_encoding_loop N (bitwidth q) (use_symmetric_encodings q)
                               (use_strict_symmetric q) (use_unsigned_symmetric q) (cppOp q) (enabled q, []);
                q' = q\<lparr>enabled := en, encoding_attr := PyList (map PyEnc encs)\<rparr>
            in if \<not> enabled q' \<and> truthy (encoding_attr q')
               then (q', Some (AssertionError ''''))
               else (q', None)))
      else (q, None))"

definition reset_encoding_stats ::
  "'e native \<Rightarrow> ('e, 'x) StaticGridTensorQuantizer_scheme \<Rightarrow> ('e, 'x) StaticGridTensorQuantizer_scheme outcome" where
  "reset_encoding_stats N q =
     (if \<not> is_encoding_frozen q
      then (q\<lparr>cppOp := map (resetEncodingStats N) (cppOp q), encoding_attr := PyNone\<rparr>, None)
      else (q, None))"

definition freeze_encoding ::
  "('e, 'x) StaticGridTensorQuantizer_scheme \<Rightarrow> ('e, 'x) StaticGridTensorQuantizer_scheme outcome" where
  "freeze_encoding q =
     (if \<not> truthy (encoding_attr q)
      then (q, Some (RuntimeError ''Encoding can be frozen only when it is not None.''))
      else (q\<lparr>is_encoding_frozen := True\<rparr>, None))"

text \<open>
  The calls that write \<open>_encoding\<close> or \<open>_is_encoding_frozen\<close>, and a run of them on one
  object. A caller that catches the exception goes on with the object as the failed call
  left it.
\<close>

datatype sg_call = SetEncoding pyenc | ComputeEncoding | ResetEncodingStats | FreezeEncoding

fun sg_step ::
  "'e native \<Rightarrow> sg_call \<Rightarrow> ('e, 'x) StaticGridTensorQuantizer_scheme \<Rightarrow> ('e, 'x) StaticGridTensorQuantizer_scheme outcome" where
  "sg_step N (SetEncoding e) q = sg_set_encoding q e"
| "sg_step N ComputeEncoding q = compute_encoding N q"
| "sg_step N ResetEncodingStats q = reset_encoding_stats N q"
| "sg_step N FreezeEncoding q = freeze_encoding q"

fun sg_run ::
  "'e native \<Rightarrow> sg_call list \<Rightarrow> ('e, 'x) StaticGridTensorQuantizer_scheme \<Rightarrow> ('e, 'x) StaticGridTensorQuantizer_scheme" where
  "sg_run N [] q = q"
| "sg_run N (c # cs) q = sg_run N cs (fst (sg_step N c q))"

section \<open>QuantizeDequantize (static grid)\<close>

text \<open>
  The \<open>encoding\<close> property: the per-tensor quantizer returns the first element of
  \<open>_encoding\<close> (or \<open>None\<close>), the per-channel quantizer returns \<open>_encoding\<close> itself.
\<close>

definition py_getitem :: "pyenc \<Rightarrow> nat \<Rightarrow> error + pyenc" where
  "py_getitem x i =
     (case x of
        PyList xs \<Rightarrow> (if i < length xs then Inr (xs ! i) else Inl IndexError)
      | _ \<Rightarrow> Inl TypeError)"

definition sg_encoding :: "('e, 'x) StaticGridTensorQuantizer_scheme \<Rightarrow> error + pyenc" where
  "sg_encoding q =
     (case sg_class q of
        StaticGridPerTensorQuantizer \<Rightarrow>
          (if truthy (encoding_attr q) then py_getitem (encoding_attr q) 0 else Inr PyNone)
      | StaticGridPerChannelQuantizer \<Rightarrow> Inr (encoding_attr q))"

text \<open>The attributes \<open>.min\<close> and \<open>.max\<close>: only an encoding object has them.\<close>

definition attr_min :: "pyenc \<Rightarrow> error + real" where
  "attr_min x = (case x of PyEnc e \<Rightarrow> Inr (enc_min e) | _ \<Rightarrow> Inl AttributeError)"

definition attr_max :: "pyenc \<Rightarrow> error + real" where
  "attr_max x = (case x of PyEnc e \<Rightarrow> Inr (enc_max e) | _ \<Rightarrow> Inl AttributeError)"

text \<open>
  The two forward helpers. The round trip through half precision (\<open>tensor.half().float()\<close>)
  is a parameter \<open>half\<close> on elements.
\<close>

definition per_tensor_quantize_dequantize ::
  "'e native \<Rightarrow> (real \<Rightarrow> real) \<Rightarrow> real tensor \<Rightarrow> ('e, 'x) StaticGridTensorQuantizer_scheme \<Rightarrow>
     string \<Rightarrow> error + real tensor" where
  "per_tensor_quantize_dequantize N half tensor tensor_quantizer round_mode =
     (if data_type tensor_quantizer = DT_float then
        (if bitwidth tensor_quantizer \<noteq> 16
         then Inl (ValueError ''float data_type only supports bitwidth=16'')
         else Inr (tmap half tensor))
      else
        (case cppOp tensor_quantizer of
           [] \<Rightarrow> Inl IndexError
         | op # _ \<Rightarrow>
             (case sg_encoding tensor_quantizer of
                Inl err \<Rightarrow> Inl err
              | Inr enc \<Rightarrow> Inr (quantizeDequantize N op tensor enc round_mode))))"

fun per_channel_loop ::
  "'e native \<Rightarrow> real tensor \<Rightarrow> ('e, 'x) StaticGridTensorQuantizer_scheme \<Rightarrow> string \<Rightarrow>
     nat \<Rightarrow> 'e list \<Rightarrow> error + real tensor list" where
  "per_channel_loop N tensor q round_mode index [] = Inr []"
| "per_channel_loop N tensor q round_mode index (op # ops) =
     (if \<not> (sg_ch_axis q < length (shape tensor) \<and> index < shape tensor ! sg_ch_axis q)
      then Inl IndexError
      else
        (case py_getitem (encoding_attr q) index of
           Inl err \<Rightarrow> Inl err
         | Inr enc \<Rightarrow>
             (let tensor_slice = tselect (sg_ch_axis q) index tensor;
                  computed_tensor = quantizeDequantize N op tensor_slice enc round_mode
              in case per_channel_loop N tensor q round_mode (Suc index) ops of
                   Inl err \<Rightarrow> Inl err
                 | Inr quantized_tensors \<Rightarrow> Inr (computed_tensor # quantized_tensors))))"

definition per_channel_quantize_dequantize ::
  "'e native \<Rightarrow> (real \<Rightarrow> real) \<Rightarrow> real tensor \<Rightarrow> ('e, 'x) StaticGridTensorQuantizer_scheme \<Rightarrow>
     string \<Rightarrow> error + real tensor" where
  "per_channel_quantize_dequantize N half tensor tensor_quantizer round_mode =
     (if data_type tensor_quantizer = DT_float then
        (if bitwidth tensor_quantizer \<noteq> 16
         then Inl (ValueError ''float data_type only supports bitwidth=16'')
         else Inr (tmap half tensor))
      else
        (case per_channel_loop N tensor tensor_quantizer round_mode 0 (cppOp tensor_quantizer) of
           Inl err \<Rightarrow> Inl err
         | Inr quantized_tensors \<Rightarrow> tstack quantized_tensors (sg_ch_axis tensor_quantizer)))"

text \<open>
  \<open>QuantizeDequantize.forward\<close> returns the tensor it also saves for backward;
  \<open>quantize_dequantize\<close> returns a clone of it, a new tensor with the same elements.
\<close>

definition QuantizeDequantize_forward ::
  "'e native \<Rightarrow> (real \<Rightarrow> real) \<Rightarrow> real tensor \<Rightarrow> ('e, 'x) StaticGridTensorQuantizer_scheme \<Rightarrow>
     string \<Rightarrow> error + real tensor" where
  "QuantizeDequantize_forward N half tensor tensor_quantizer round_mode =
     (if enabled tensor_quantizer then
        (case sg_class tensor_quantizer of
           StaticGridPerChannelQuantizer \<Rightarrow>
             per_channel_quantize_dequantize N half tensor tensor_quantizer round_mode
         | StaticGridPerTensorQuantizer \<Rightarrow>
             per_tensor_quantize_dequantize N half tensor tensor_quantizer round_mode)
      else Inr tensor)"

definition clone :: "'a tensor \<Rightarrow> 'a tensor" where
  "clone t = \<lparr>shape = shape t, elem = elem t\<rparr>"

definition sg_quantize_dequantize ::
  "'e native \<Rightarrow> (real \<Rightarrow> real) \<Rightarrow> ('e, 'x) StaticGridTensorQuantizer_scheme \<Rightarrow> real tensor \<Rightarrow>
     string \<Rightarrow> error + real tensor" where
  "sg_quantize_dequantize N half q tensor round_mode =
     (case QuantizeDequantize_forward N half tensor q round_mode of
        Inl err \<Rightarrow> Inl err
      | Inr output \<Rightarrow> Inr (clone output))"

text \<open>
  Modelled from the spec: \<open>compute_dloss_by_dx\<close> of \<open>quantsim_straight_through_grad\<close> is not
  among the sources. The spec (4.4, 8) has it give zero gradient to the elements outside
  \<open>[min, max]\<close> and the upstream gradient unchanged to the others; the min and max it is
  called with here are the two floats of one encoding.
\<close>

definition compute_dloss_by_dx ::
  "real tensor \<Rightarrow> real tensor \<Rightarrow> real \<Rightarrow> real \<Rightarrow> nat \<Rightarrow> real tensor" where
  "compute_dloss_by_dx x grad encoding_min encoding_max ch_axis =
     tzip (\<lambda>v g. if encoding_min \<le> v \<and> v \<le> encoding_max then g else 0) x grad"

text \<open>
  \<open>QuantizeDequantize.backward\<close>, on the tensor saved by forward and the quantizer as it
  is when backward runs. The result is the gradient for the tensor and \<open>None\<close> for the
  quantizer and the rounding mode.
\<close>

definition QuantizeDequantize_backward ::
  "('e, 'x) StaticGridTensorQuantizer_scheme \<Rightarrow> real tensor \<Rightarrow> real tensor \<Rightarrow>
     error + (real tensor \<times> unit option \<times> unit option)" where
  "QuantizeDequantize_backward tensor_quantizer saved output_grad =
     (if enabled tensor_quantizer \<and> data_type tensor_quantizer = DT_int then
        (let ch_axis = (case sg_class tensor_quantizer of
                          StaticGridPerChannelQuantizer \<Rightarrow> sg_ch_axis tensor_quantizer
                        | StaticGridPerTensorQuantizer \<Rightarrow> 0)
         in case sg_encoding tensor_quantizer of
              Inl err \<Rightarrow> Inl err
            | Inr enc1 \<Rightarrow>
                (case attr_min enc1 of
                   Inl err \<Rightarrow> Inl err
                 | Inr mn \<Rightarrow>
                     (case sg_encoding tensor_quantizer of
                        Inl err \<Rightarrow> Inl err
                      | Inr enc2 \<Rightarrow>
                          (case attr_max enc2 of
                             Inl err \<Rightarrow> Inl err
                           | Inr mx \<Rightarrow>
                               Inr (compute_dloss_by_dx saved output_grad mn mx ch_axis, None, None)))))
      else Inr (output_grad, None, None))"

section \<open>LearnedGridTensorQuantizer\<close>

text \<open>
  \<open>get_n_and_p\<close>. The two results are one-element tensors of the runtime's default
  floating-point type, used as scalars everywhere; the power and the subtractions are
  those of the runtime.
\<close>

definition get_n_and_p :: "'f arith \<Rightarrow> nat \<Rightarrow> bool \<Rightarrow> bool \<Rightarrow> error + ('f \<times> 'f)" where
  "get_n_and_p A b use_symmetric_encoding use_strict =
     (if \<not> use_symmetric_encoding \<and> use_strict
      then Inl (ValueError ''Strict symmetric can be enabled only when using symmetric encoding'')
      else
        (let n = f_num A 0;
             p = f_sub A (f_pow A (f_num A 2) b) (f_num A 1);
             p = (if use_symmetric_encoding \<and> use_strict then f_sub A p (f_num A 1) else p)
         in Inr (n, p)))"

text \<open>
  The wrapper module is not owned by the quantizer; of it, the model keeps the dictionary
  \<open>wrapper_ref._parameters\<close> that the quantizer reads and writes. A parameter is a vector of
  floats (built from a Python list) with its \<open>requires_grad\<close> flag; a registered name may
  hold \<open>None\<close>.
\<close>

record Parameter =
  param_data :: "real list"
  requires_grad :: bool

type_synonym parameters = "string \<rightharpoonup> Parameter option"

record 'f LearnedGridTensorQuantizer = TensorQuantizer +
  wrapper_ref :: "parameters option"
  name :: "string option"
  lg_n :: 'f
  lg_p :: 'f
  scaling :: "'f tensor option"
  offset :: "'f tensor option"
  lg_ch_axis :: nat

text \<open>\<open>[enc.min for enc in encodings]\<close> needs every element to be an encoding.\<close>

fun the_encodings :: "pyenc list \<Rightarrow> TfEncoding list option" where
  "the_encodings [] = Some []"
| "the_encodings (PyEnc e # xs) = map_option ((#) e) (the_encodings xs)"
| "the_encodings (_ # xs) = None"

definition set_encoding_min_max_parameters ::
  "('f, 'x) LearnedGridTensorQuantizer_scheme \<Rightarrow> pyenc \<Rightarrow> ('f, 'x) LearnedGridTensorQuantizer_scheme outcome" where
  "set_encoding_min_max_parameters q encodings =
     (case name q of
        None \<Rightarrow> (q, Some TypeError)
      | Some nm \<Rightarrow>
     (case wrapper_ref q of
        None \<Rightarrow> (q, Some AttributeError)
      | Some params \<Rightarrow>
     (let enc_min_param = nm @ ''_encoding_min'';
          enc_max_param = nm @ ''_encoding_max'';
          store = (\<lambda>q1 encodings_min encodings_max.
            (q1\<lparr>wrapper_ref := Some (params
                 (enc_min_param \<mapsto> Some \<lparr>param_data = encodings_min, requires_grad = True\<rparr>,
                  enc_max_param \<mapsto> Some \<lparr>param_data = encodings_max, requires_grad = True\<rparr>))\<rparr>, None))
      in case encodings of
           PyList xs \<Rightarrow>
             (case xs of
                [] \<Rightarrow> (q, Some IndexError)
              | PyEnc e0 # _ \<Rightarrow>
                  (case the_encodings xs of
                     None \<Rightarrow> (q, Some AttributeError)
                   | Some es \<Rightarrow> store (q\<lparr>bitwidth := bw e0\<rparr>) (map enc_min es) (map enc_max es))
              | _ # _ \<Rightarrow> (q, Some (AssertionError ''Encodings should be a libpymo.TfEncoding() object'')))
         | PyEnc e \<Rightarrow> store (q\<lparr>bitwidth := bw e\<rparr>) [enc_min e] [enc_max e]
         | PyNone \<Rightarrow> (q, Some (AssertionError ''Encodings should be a libpymo.TfEncoding() object'')))))"

definition set_p_and_n ::
  "'f arith \<Rightarrow> ('f, 'x) LearnedGridTensorQuantizer_scheme \<Rightarrow> pyenc \<Rightarrow>
     ('f, 'x) LearnedGridTensorQuantizer_scheme outcome" where
  "set_p_and_n A q encodings =
     (case (case encodings of
              PyList [] \<Rightarrow> Inl IndexError
            | PyList (PyEnc e0 # _) \<Rightarrow> Inr (bw e0)
            | PyList (_ # _) \<Rightarrow> Inl AttributeError
            | PyEnc e \<Rightarrow> Inr (bw e)
            | PyNone \<Rightarrow> Inl AttributeError) of
        Inl err \<Rightarrow> (q, Some err)
      | Inr b \<Rightarrow>
          (if b \<noteq> bitwidth q then (q, Some (AssertionError ''Bitwidth mismatched.''))
           else (case get_n_and_p A (bitwidth q) (use_symmetric_encodings q) (use_strict_symmetric q) of
                   Inl err \<Rightarrow> (q, Some err)
                 | Inr (n, p) \<Rightarrow> (q\<lparr>lg_n := n, lg_p := p\<rparr>, None))))"

definition lg_set_encoding ::
  "'f arith \<Rightarrow> ('f, 'x) LearnedGridTensorQuantizer_scheme \<Rightarrow> pyenc \<Rightarrow>
     ('f, 'x) LearnedGridTensorQuantizer_scheme outcome" where
  "lg_set_encoding A q encoding =
     (if enabled q then
        (if encoding = PyNone
         then (q, Some (AssertionError ''Encodings cannot be None if Quantizer is enabled.''))
         else if is_encoding_frozen q
         then (q, Some (RuntimeError ''Encoding can be set only when it is not frozen.''))
         else (case set_encoding_min_max_parameters q encoding of
                 (q1, Some err) \<Rightarrow> (q1, Some err)
               | (q1, None) \<Rightarrow> set_p_and_n A q1 encoding))
      else (q, None))"

text \<open>
  \<open>compute_scaling_offset\<close>. The forward of \<open>RoundStraightThrough\<close> is \<open>torch.round\<close>.
\<close>

definition compute_scaling_offset ::
  "'f arith \<Rightarrow> ('f, 'x) LearnedGridTensorQuantizer_scheme \<Rightarrow> 'f tensor \<Rightarrow> 'f tensor \<Rightarrow>
     'f tensor \<times> 'f tensor" where
  "compute_scaling_offset A q encoding_min encoding_max =
     (let scaling = tmap (\<lambda>v. f_div A v (lg_p q)) (tzip (f_sub A) encoding_max encoding_min);
          offset = tmap (f_round A) (tzip (f_div A) (tmap (f_neg A) encoding_min) scaling)
      in (scaling, offset))"

section \<open>QuantizeDequantizeFunc\<close>

definition compute_delta_and_offset ::
  "'f arith \<Rightarrow> 'f tensor \<Rightarrow> 'f tensor \<Rightarrow> 'f tensor \<Rightarrow> 'f \<Rightarrow> nat \<Rightarrow> 'f tensor \<times> 'f tensor" where
  "compute_delta_and_offset A tensor encoding_min encoding_max steps channel_axis =
     (let delta = tmap (\<lambda>v. f_div A v steps) (tzip (f_sub A) encoding_max encoding_min);
          offset = tmap (f_round A) (tzip (f_div A) encoding_min delta)
      in if len encoding_min > 1
         then (broadcast_to_tensor tensor delta channel_axis,
               broadcast_to_tensor tensor offset channel_axis)
         else (delta, offset))"

text \<open>
  The table \<open>_encoding_params_to_dtype\<close> with its default, and the context saved for
  backward. How the runtime converts a float to the integer type is a parameter \<open>cast\<close>.
\<close>

datatype dtype = uint8 | int8 | int16 | int32

definition encoding_params_to_dtype :: "nat \<Rightarrow> bool \<Rightarrow> bool \<Rightarrow> dtype" where
  "encoding_params_to_dtype b is_symmetric use_unsigned =
     (if b = 8 \<and> is_symmetric \<and> use_unsigned then uint8
      else if b = 8 \<and> is_symmetric \<and> \<not> use_unsigned then int8
      else if b = 8 \<and> \<not> is_symmetric \<and> use_unsigned then uint8
      else if b = 8 \<and> \<not> is_symmetric \<and> \<not> use_unsigned then uint8
      else if b = 16 \<and> is_symmetric \<and> \<not> use_unsigned then int16
      else int32)"

record 'f ctx =
  ctx_channel_axis :: nat
  ctx_tensor :: "'f tensor"
  ctx_clamp_out :: "'f tensor"
  ctx_delta :: "'f tensor"
  ctx_offset :: "'f tensor"
  ctx_encoding_min :: "'f tensor"
  ctx_encoding_max :: "'f tensor"
  ctx_mask_tensor :: "bool tensor"
  ctx_steps :: 'f

definition QuantizeDequantizeFunc_forward ::
  "'f arith \<Rightarrow> (dtype \<Rightarrow> 'f \<Rightarrow> 'f) \<Rightarrow> 'f tensor \<Rightarrow> 'f tensor \<Rightarrow> 'f tensor \<Rightarrow>
     ('f, 'x) LearnedGridTensorQuantizer_scheme \<Rightarrow> 'f tensor \<times> 'f ctx" where
  "QuantizeDequantizeFunc_forward A cast tensor encoding_min encoding_max tensor_quantizer =
     (let b = bitwidth tensor_quantizer;
          channel_axis = lg_ch_axis tensor_quantizer;
          n = lg_n tensor_quantizer;
          p = lg_p tensor_quantizer;
          steps = p;
          (delta, offset) = compute_delta_and_offset A tensor encoding_min encoding_max steps channel_axis;
          quantize_out = tzip (f_sub A) (tmap (f_round A) (tzip (f_div A) tensor delta)) offset;
          clamp_out = tmap (\<lambda>v. f_clamp A v n p) quantize_out;
          dequantize_out = tzip (f_mul A) (tzip (f_add A) clamp_out offset) delta;
          mask_tensor = tzip (\<and>) (tmap (\<lambda>v. f_ge A v n) quantize_out) (tmap (\<lambda>v. f_le A v p) quantize_out);
          dtype_for_clamp_out = encoding_params_to_dtype b (use_symmetric_encodings tensor_quantizer)
                                  (use_unsigned_symmetric tensor_quantizer)
      in (dequantize_out,
          \<lparr>ctx_channel_axis = channel_axis, ctx_tensor = tensor,
           ctx_clamp_out = tmap (cast dtype_for_clamp_out) clamp_out,
           ctx_delta = delta, ctx_offset = offset,
           ctx_encoding_min = encoding_min, ctx_encoding_max = encoding_max,
           ctx_mask_tensor = mask_tensor, ctx_steps = steps\<rparr>))"

text \<open>
  The gradients for the tensor, the encoding min and the encoding max (the fourth result,
  for the quantizer argument, is always \<open>None\<close>), computed in exact arithmetic from a saved
  context of reals.
\<close>

definition QuantizeDequantizeFunc_backward ::
  "real ctx \<Rightarrow> real tensor \<Rightarrow> error + (real tensor \<times> real tensor \<times> real tensor)" where
  "QuantizeDequantizeFunc_backward c grad =
     (let tensor = ctx_tensor c; clamp_out = ctx_clamp_out c; delta = ctx_delta c;
          offset = ctx_offset c; encoding_min = ctx_encoding_min c;
          encoding_max = ctx_encoding_max c; steps = ctx_steps c;
          channel_axis = ctx_channel_axis c;
          dequantize_grad = tzip (*) delta grad;
          mask_tensor = tmap (\<lambda>m. if m then 1 else 0) (ctx_mask_tensor c);
          tensor_grad = tzip (*) grad mask_tensor;
          scale_grad = tzip (*) (tzip (-) (tzip (+) clamp_out offset)
                                          (tzip (/) (tzip (*) tensor mask_tensor) delta)) grad;
          offset_grad = tzip (*) dequantize_grad (tmap (\<lambda>m. 1 - m) mask_tensor);
          dims = [0..<length (shape tensor)]
      in case (if len delta > 1 \<and> length (shape tensor) > 1 then py_pop dims channel_axis
               else Inr dims) of
           Inl err \<Rightarrow> Inl err
         | Inr dims \<Rightarrow>
             (let intermediate_term1 = tmap (\<lambda>v. v / steps) (tsum dims scale_grad);
                  intermediate_term2 =
                    tzip (*) (tmap (\<lambda>v. steps / v) (tmap (\<lambda>v. v ^ 2) (tzip (-) encoding_max encoding_min)))
                             (tsum dims offset_grad);
                  tensor_encoding_min_grad =
                    tzip (+) (tmap uminus intermediate_term1) (tzip (*) encoding_max intermediate_term2);
                  tensor_encoding_max_grad =
                    tzip (-) intermediate_term1 (tzip (*) encoding_min intermediate_term2)
              in Inr (tensor_grad, tensor_encoding_min_grad, tensor_encoding_max_grad)))"

text \<open>\<open>LearnedGridTensorQuantizer.quantize_dequantize\<close>; an absent min or max is \<open>None\<close>.\<close>

definition lg_quantize_dequantize ::
  "'f arith \<Rightarrow> (dtype \<Rightarrow> 'f \<Rightarrow> 'f) \<Rightarrow> ('f, 'x) LearnedGridTensorQuantizer_scheme \<Rightarrow> 'f tensor \<Rightarrow>
     'f tensor option \<Rightarrow> 'f tensor option \<Rightarrow> error + 'f tensor" where
  "lg_quantize_dequantize A cast q tensor encoding_min encoding_max =
     (if enabled q then
        (case (encoding_max, encoding_min) of
           (Some mx, Some mn) \<Rightarrow> Inr (fst (QuantizeDequantizeFunc_forward A cast tensor mn mx q))
         | _ \<Rightarrow> Inl (RuntimeError
             ''Forward pass used for compute_encodings differs from forward pass used during training''))
      else Inr tensor)"

section \<open>ParameterQuantizer\<close>

text \<open>
  The wrapper of a layer: its named parameters in order, each with its data and the
  gradient it has received (\<open>param.grad\<close>, possibly \<open>None\<close>), the dictionary of parameter
  quantizers, and the \<open>_is_replica\<close> attribute when the wrapper has one.
\<close>

record 'f param =
  data :: "'f tensor"
  grad_attr :: "'f tensor option"

record 'f wrapper =
  named_parameters :: "(string \<times> 'f param) list"
  param_quantizers :: "string \<rightharpoonup> 'f LearnedGridTensorQuantizer"
  is_replica :: "bool option"

text \<open>
  The gradient formulas of \<open>quantsim_straight_through_grad\<close> are not among the sources; the
  functions that \<open>compute_gradients\<close> calls are parameters. \<open>LearnedGridParams\<close> carries the
  scaling, the offset, \<open>n\<close> and \<open>p\<close>.
\<close>

type_synonym 'f LearnedGridParams = "'f tensor \<times> 'f tensor \<times> 'f \<times> 'f"

record ('f, 'r) grad_fn =
  compute_intermediate_result_for_learned_grid :: "'f tensor \<Rightarrow> 'f tensor \<Rightarrow> 'f tensor \<Rightarrow> 'r"
  compute_dloss_by_dx_using_scale_offset :: "'f tensor \<Rightarrow> 'f tensor \<Rightarrow> 'f LearnedGridParams \<Rightarrow> 'f tensor"
  compute_dloss_by_dmax :: "'f tensor \<Rightarrow> 'f tensor \<Rightarrow> 'r \<Rightarrow> 'f LearnedGridParams \<Rightarrow> nat \<Rightarrow> 'f tensor"
  compute_dloss_by_dmin :: "'f tensor \<Rightarrow> 'f tensor \<Rightarrow> 'r \<Rightarrow> 'f LearnedGridParams \<Rightarrow> nat \<Rightarrow> 'f tensor"

text \<open>
  \<open>compute_gradients\<close> returns the parameter with its \<open>grad\<close> overwritten, and the
  gradients of the encoding min and max. \<open>len\<close> of a scaling or offset that was never
  computed (\<open>None\<close>) raises.
\<close>

definition compute_gradients ::
  "('f, 'r) grad_fn \<Rightarrow> 'f param \<Rightarrow> 'f LearnedGridTensorQuantizer \<Rightarrow> 'f tensor \<Rightarrow>
     error + ('f param \<times> 'f tensor \<times> 'f tensor)" where
  "compute_gradients G tensor tensor_quantizer g =
     (case scaling tensor_quantizer of
        None \<Rightarrow> Inl TypeError
      | Some scaling0 \<Rightarrow>
     (case offset tensor_quantizer of
        None \<Rightarrow> Inl TypeError
      | Some offset0 \<Rightarrow>
     (let channel_axis = lg_ch_axis tensor_quantizer;
          scaling1 = (if len scaling0 > 1 \<and> length (shape (data tensor)) > 1
                      then broadcast_to_tensor (data tensor) scaling0 channel_axis else scaling0);
          offset1 = (if len offset0 > 1 \<and> length (shape (data tensor)) > 1
                     then broadcast_to_tensor (data tensor) offset0 channel_axis else offset0);
          grid_params = (scaling1, offset1, lg_n tensor_quantizer, lg_p tensor_quantizer);
          intermediate_result =
            compute_intermediate_result_for_learned_grid G (data tensor) scaling1 offset1;
          tensor' = tensor\<lparr>grad_attr := Some (compute_dloss_by_dx_using_scale_offset G (data tensor) g grid_params)\<rparr>;
          tensor_encoding_max_grad =
            compute_dloss_by_dmax G (data tensor) g intermediate_result grid_params channel_axis;
          tensor_encoding_min_grad =
            compute_dloss_by_dmin G (data tensor) g intermediate_result grid_params channel_axis
      in Inr (tensor', tensor_encoding_min_grad, tensor_encoding_max_grad))))"

text \<open>
  \<open>quantize_parameters\<close>, the forward side: the parameter at position \<open>index\<close> takes its
  encoding min and max from positions \<open>index * 2\<close> and \<open>index * 2 + 1\<close> of
  \<open>encoding_params\<close>. For a replica the data is cloned before it is quantized.
\<close>

fun quantize_parameters_loop ::
  "'f arith \<Rightarrow> (dtype \<Rightarrow> 'f \<Rightarrow> 'f) \<Rightarrow> bool \<Rightarrow> 'f tensor option list \<Rightarrow> nat \<Rightarrow>
     (string \<times> 'f param) list \<Rightarrow> (string \<rightharpoonup> 'f LearnedGridTensorQuantizer) \<Rightarrow>
     error + ((string \<times> 'f param) list \<times> (string \<rightharpoonup> 'f LearnedGridTensorQuantizer))" where
  "quantize_parameters_loop A cast replica encoding_params index [] pq = Inr ([], pq)"
| "quantize_parameters_loop A cast replica encoding_params index ((nm, param) # rest) pq =
     (case pq nm of
        None \<Rightarrow> Inl KeyError
      | Some q \<Rightarrow>
          (if enabled q then
             (if \<not> index * 2 + 1 < length encoding_params then Inl IndexError
              else
                (case (encoding_params ! (index * 2), encoding_params ! (index * 2 + 1)) of
                   (Some encoding_min, Some encoding_max) \<Rightarrow>
                     (let (sc, off) = compute_scaling_offset A q encoding_min encoding_max;
                          param_quantizer = q\<lparr>scaling := Some sc, offset := Some off\<rparr>;
                          d = (if replica then clone (data param) else data param)
                      in case lg_quantize_dequantize A cast param_quantizer d
                                (Some encoding_min) (Some encoding_max) of
                           Inl err \<Rightarrow> Inl err
                         | Inr d' \<Rightarrow>
                             (case quantize_parameters_loop A cast replica encoding_params (Suc index) rest
                                     (pq(nm \<mapsto> param_quantizer)) of
                                Inl err \<Rightarrow> Inl err
                              | Inr (rest', pq') \<Rightarrow> Inr ((nm, param\<lparr>data := d'\<rparr>) # rest', pq')))
                 | _ \<Rightarrow> Inl TypeError))
           else
             (case quantize_parameters_loop A cast replica encoding_params (Suc index) rest pq of
                Inl err \<Rightarrow> Inl err
              | Inr (rest', pq') \<Rightarrow> Inr ((nm, param) # rest', pq'))))"

definition quantize_parameters ::
  "'f arith \<Rightarrow> (dtype \<Rightarrow> 'f \<Rightarrow> 'f) \<Rightarrow> 'f wrapper \<Rightarrow> 'f tensor option list \<Rightarrow> error + 'f wrapper" where
  "quantize_parameters A cast trainable_wrapper encoding_params =
     (case quantize_parameters_loop A cast (is_replica trainable_wrapper = Some True) encoding_params 0
             (named_parameters trainable_wrapper) (param_quantizers trainable_wrapper) of
        Inl err \<Rightarrow> Inl err
      | Inr (ps, pq) \<Rightarrow> Inr (trainable_wrapper\<lparr>named_parameters := ps, param_quantizers := pq\<rparr>))"

text \<open>
  \<open>backward_pass_for_parameters\<close>: the loop over the named parameters, returning the list
  \<open>param_encoding_grads\<close> and the parameters as \<open>compute_gradients\<close> left them.
\<close>

fun backward_pass_loop ::
  "('f, 'r) grad_fn \<Rightarrow> (string \<rightharpoonup> 'f LearnedGridTensorQuantizer) \<Rightarrow> (string \<times> 'f param) list \<Rightarrow>
     error + ('f tensor option list \<times> (string \<times> 'f param) list)" where
  "backward_pass_loop G pq [] = Inr ([], [])"
| "backward_pass_loop G pq ((nm, param) # rest) =
     (case pq nm of
        None \<Rightarrow> Inl KeyError
      | Some param_quantizer \<Rightarrow>
          (if enabled param_quantizer \<and> grad_attr param \<noteq> None then
             (case compute_gradients G param param_quantizer (the (grad_attr param)) of
                Inl err \<Rightarrow> Inl err
              | Inr (param', param_encoding_min_grad, param_encoding_max_grad) \<Rightarrow>
                  (case backward_pass_loop G pq rest of
                     Inl err \<Rightarrow> Inl err
                   | Inr (param_encoding_grads, rest') \<Rightarrow>
                       Inr (Some param_encoding_min_grad # Some param_encoding_max_grad # param_encoding_grads,
                            (nm, param') # rest')))
           else if enabled param_quantizer then
             (case backward_pass_loop G pq rest of
                Inl err \<Rightarrow> Inl err
              | Inr (param_encoding_grads, rest') \<Rightarrow>
                  Inr (None # None # param_encoding_grads, (nm, param) # rest'))
           else
             (case backward_pass_loop G pq rest of
                Inl err \<Rightarrow> Inl err
              | Inr (param_encoding_grads, rest') \<Rightarrow> Inr (param_encoding_grads, (nm, param) # rest'))))"

definition backward_pass_for_parameters ::
  "('f, 'r) grad_fn \<Rightarrow> 'f wrapper \<Rightarrow> error + ('f tensor option list \<times> 'f wrapper)" where
  "backward_pass_for_parameters G trainable_wrapper =
     (case backward_pass_loop G (param_quantizers trainable_wrapper) (named_parameters trainable_wrapper) of
        Inl err \<Rightarrow> Inl err
      | Inr (param_encoding_grads, ps) \<Rightarrow>
          Inr (param_encoding_grads, trainable_wrapper\<lparr>named_parameters := ps\<rparr>))"

text \<open>
  \<open>ParameterQuantizer.backward\<close> returns the upstream gradients, \<open>None\<close> for the wrapper, and
  the encoding gradients.
\<close>

definition ParameterQuantizer_backward ::
  "('f, 'r) grad_fn \<Rightarrow> 'f wrapper \<Rightarrow> 'f tensor list \<Rightarrow> error + ('f tensor option list \<times> 'f wrapper)" where
  "ParameterQuantizer_backward G trainable_wrapper output_grad =
     (case backward_pass_for_parameters G trainable_wrapper of
        Inl err \<Rightarrow> Inl err
      | Inr (param_encoding_grads, w') \<Rightarrow>
          Inr (map Some output_grad @ [None] @ param_encoding_grads, w'))"

section \<open>The formulas of the specification\<close>

text \<open>
  The quantities the specification names, one element at a time. The channel of an index
  is its coordinate on the channel axis when the encoding has more than one entry, and
  \<open>0\<close> for a per-tensor encoding.
\<close>

definition chan :: "nat \<Rightarrow> nat \<Rightarrow> nat list \<Rightarrow> nat" where
  "chan k a i = (if 1 < k then i ! a else 0)"

definition spec_delta :: "'f arith \<Rightarrow> 'f tensor \<Rightarrow> 'f tensor \<Rightarrow> 'f \<Rightarrow> nat \<Rightarrow> 'f" where
  "spec_delta A emin emax steps c = f_div A (f_sub A (elem emax [c]) (elem emin [c])) steps"

definition spec_offset :: "'f arith \<Rightarrow> 'f tensor \<Rightarrow> 'f tensor \<Rightarrow> 'f \<Rightarrow> nat \<Rightarrow> 'f" where
  "spec_offset A emin emax steps c = f_round A (f_div A (elem emin [c]) (spec_delta A emin emax steps c))"

definition spec_quantize :: "'f arith \<Rightarrow> 'f \<Rightarrow> 'f \<Rightarrow> 'f \<Rightarrow> 'f" where
  "spec_quantize A x d o' = f_sub A (f_round A (f_div A x d)) o'"

text \<open>
  The mask as a number, and the two gradient terms of the specification before they are
  summed: the scale term \<open>(clamped + offset - tensor * mask / delta) * g\<close> and the offset
  term \<open>delta * g * (1 - mask)\<close>.
\<close>

definition mask_val :: "real ctx \<Rightarrow> nat list \<Rightarrow> real" where
  "mask_val c i = (if elem (ctx_mask_tensor c) i then 1 else 0)"

definition spec_scale_grad :: "real ctx \<Rightarrow> real tensor \<Rightarrow> nat list \<Rightarrow> real" where
  "spec_scale_grad c g i =
     (elem (ctx_clamp_out c) i + bcast (ctx_offset c) i
        - elem (ctx_tensor c) i * mask_val c i / bcast (ctx_delta c) i) * elem g i"

definition spec_offset_grad :: "real ctx \<Rightarrow> real tensor \<Rightarrow> nat list \<Rightarrow> real" where
  "spec_offset_grad c g i = bcast (ctx_delta c) i * elem g i * (1 - mask_val c i)"

text \<open>
  The indices whose terms the backward pass adds up for one channel, as the code selects
  them, and the result read off at one channel of the encoding-min gradient.
\<close>

definition summed_indices :: "real ctx \<Rightarrow> nat \<Rightarrow> nat list list" where
  "summed_indices c ch =
     (if shape (ctx_delta c) = [1] then indices (shape (ctx_tensor c))
      else filter (\<lambda>i. i ! ctx_channel_axis c = ch) (indices (shape (ctx_tensor c))))"

definition encoding_min_grad :: "error + (real tensor \<times> real tensor \<times> real tensor) \<Rightarrow> nat \<Rightarrow> error + real" where
  "encoding_min_grad r ch = (case r of Inl e \<Rightarrow> Inl e | Inr (tg, mng, mxg) \<Rightarrow> Inr (elem mng [ch]))"

text \<open>
  The gradient terms as the specification states them, with both sums always taken over
  all axes except the channel axis.
\<close>

definition claimed_scale_term :: "real ctx \<Rightarrow> real tensor \<Rightarrow> nat \<Rightarrow> real" where
  "claimed_scale_term c g ch =
     sum_list (map (spec_scale_grad c g)
       (filter (\<lambda>i. i ! ctx_channel_axis c = ch) (indices (shape (ctx_tensor c))))) / ctx_steps c"

definition claimed_offset_term :: "real ctx \<Rightarrow> real tensor \<Rightarrow> nat \<Rightarrow> real" where
  "claimed_offset_term c g ch =
     ctx_steps c / (elem (ctx_encoding_max c) [ch] - elem (ctx_encoding_min c) [ch]) ^ 2 *
       sum_list (map (spec_offset_grad c g)
         (filter (\<lambda>i. i ! ctx_channel_axis c = ch) (indices (shape (ctx_tensor c)))))"

definition claimed_min_grad :: "real ctx \<Rightarrow> real tensor \<Rightarrow> nat \<Rightarrow> real" where
  "claimed_min_grad c g ch =
     - claimed_scale_term c g ch + elem (ctx_encoding_max c) [ch] * claimed_offset_term c g ch"

text \<open>
  For one named parameter: whether its quantizer is enabled; the entries that it
  contributes to the list of encoding gradients (none when disabled, two \<open>None\<close> without a
  received gradient, the min and max gradients of \<open>compute_gradients\<close> otherwise); and
  whether it is ready for backward, that is, it has a quantizer which, if it is enabled and
  a gradient was received, holds the scaling and offset that forward computes.
\<close>

definition is_enabled :: "(string \<rightharpoonup> 'f LearnedGridTensorQuantizer) \<Rightarrow> string \<times> 'f param \<Rightarrow> bool" where
  "is_enabled pq np = (case pq (fst np) of None \<Rightarrow> False | Some q \<Rightarrow> enabled q)"

definition encoding_grads_of ::
  "('f, 'r) grad_fn \<Rightarrow> (string \<rightharpoonup> 'f LearnedGridTensorQuantizer) \<Rightarrow> string \<times> 'f param \<Rightarrow>
     'f tensor option list" where
  "encoding_grads_of G pq np =
     (case pq (fst np) of
        None \<Rightarrow> []
      | Some q \<Rightarrow>
          (if \<not> enabled q then []
           else (case grad_attr (snd np) of
                   None \<Rightarrow> [None, None]
                 | Some g \<Rightarrow>
                     (case compute_gradients G (snd np) q g of
                        Inl err \<Rightarrow> []
                      | Inr (p', mn, mx) \<Rightarrow> [Some mn, Some mx]))))"

definition ready :: "(string \<rightharpoonup> 'f LearnedGridTensorQuantizer) \<Rightarrow> string \<times> 'f param \<Rightarrow> bool" where
  "ready pq np =
     (case pq (fst np) of
        None \<Rightarrow> False
      | Some q \<Rightarrow> enabled q \<and> grad_attr (snd np) \<noteq> None \<longrightarrow> scaling q \<noteq> None \<and> offset q \<noteq> None)"

text \<open>
  The bit-width that an assigned encoding carries: its \<open>bw\<close>, or that of the first
  encoding of a list.
\<close>

fun first_bw :: "pyenc \<Rightarrow> nat option" where
  "first_bw (PyEnc e) = Some (bw e)"
| "first_bw (PyList (PyEnc e # _)) = Some (bw e)"
| "first_bw _ = None"

text \<open>
  What the native engines of a quantizer answer to \<open>getEncoding\<close> with the quantizer's
  current bit-width and flags, in the order of \<open>_cppOp\<close>.
\<close>

definition engine_answers ::
  "'e native \<Rightarrow> ('e, 'x) StaticGridTensorQuantizer_scheme \<Rightarrow> (TfEncoding \<times> bool) list" where
  "engine_answers N q =
     map (\<lambda>op. getEncoding N op (bitwidth q) (use_symmetric_encodings q)
                  (use_strict_symmetric q) (use_unsigned_symmetric q)) (cppOp q)"

section \<open>Single precision\<close>

text \<open>
  IEEE 754 single precision with rounding to nearest, ties to even, as an instance of the
  runtime's arithmetic. A value is NaN, an infinity with its sign, or a finite number
  given by its sign (\<open>True\<close> for negative) and its magnitude, so that the two zeros are
  distinct.
\<close>

datatype float32 = Finite bool real | Infinity bool | NaN

fun val32 :: "float32 \<Rightarrow> real" where
  "val32 (Finite s m) = (if s then - m else m)"
| "val32 _ = 0"

text \<open>
  Rounding of a positive real: the spacing of the representable numbers around \<open>x\<close> is
  \<open>2 ^ (e - 23)\<close> for the exponent \<open>e\<close> of \<open>x\<close>, and \<open>2 ^ (- 149)\<close> below the normal range;
  a result of \<open>2 ^ 128\<close> or more overflows to infinity.
\<close>

definition pow2 :: "int \<Rightarrow> real" where
  "pow2 e = (if 0 \<le> e then 2 ^ nat e else 1 / 2 ^ nat (- e))"

definition ulp_exp :: "real \<Rightarrow> int" where
  "ulp_exp x = max \<lfloor>log 2 x\<rfloor> (- 126) - 23"

definition round_mag :: "real \<Rightarrow> real" where
  "round_mag x = torch_round (x / pow2 (ulp_exp x)) * pow2 (ulp_exp x)"

definition mk32 :: "bool \<Rightarrow> real \<Rightarrow> float32" where
  "mk32 s x =
     (if x = 0 then Finite s 0
      else if round_mag x < 2 ^ 128 then Finite s (round_mag x)
      else Infinity s)"

definition of_real32 :: "real \<Rightarrow> float32" where
  "of_real32 r = mk32 (r < 0) \<bar>r\<bar>"

text \<open>
  The operations. A sum that is exactly zero is \<open>-0\<close> only when both operands are
  negative; a subtraction adds the negated operand; the sign of a product or quotient is
  the exclusive or of the operands' signs.
\<close>

fun neg32 :: "float32 \<Rightarrow> float32" where
  "neg32 (Finite s m) = Finite (\<not> s) m"
| "neg32 (Infinity s) = Infinity (\<not> s)"
| "neg32 NaN = NaN"

fun add32 :: "float32 \<Rightarrow> float32 \<Rightarrow> float32" where
  "add32 (Finite s a) (Finite t b) =
     (let r = val32 (Finite s a) + val32 (Finite t b)
      in if r = 0 then Finite (s \<and> t) 0 else of_real32 r)"
| "add32 (Finite s a) (Infinity t) = Infinity t"
| "add32 (Infinity s) (Finite t b) = Infinity s"
| "add32 (Infinity s) (Infinity t) = (if s = t then Infinity s else NaN)"
| "add32 NaN y = NaN"
| "add32 x NaN = NaN"

definition sub32 :: "float32 \<Rightarrow> float32 \<Rightarrow> float32" where
  "sub32 x y = add32 x (neg32 y)"

fun mul32 :: "float32 \<Rightarrow> float32 \<Rightarrow> float32" where
  "mul32 (Finite s a) (Finite t b) = mk32 (s \<noteq> t) (a * b)"
| "mul32 (Finite s a) (Infinity t) = (if a = 0 then NaN else Infinity (s \<noteq> t))"
| "mul32 (Infinity s) (Finite t b) = (if b = 0 then NaN else Infinity (s \<noteq> t))"
| "mul32 (Infinity s) (Infinity t) = Infinity (s \<noteq> t)"
| "mul32 NaN y = NaN"
| "mul32 x NaN = NaN"

fun div32 :: "float32 \<Rightarrow> float32 \<Rightarrow> float32" where
  "div32 (Finite s a) (Finite t b) =
     (if b = 0 then (if a = 0 then NaN else Infinity (s \<noteq> t)) else mk32 (s \<noteq> t) (a / b))"
| "div32 (Finite s a) (Infinity t) = Finite (s \<noteq> t) 0"
| "div32 (Infinity s) (Finite t b) = Infinity (s \<noteq> t)"
| "div32 (Infinity s) (Infinity t) = NaN"
| "div32 NaN y = NaN"
| "div32 x NaN = NaN"

text \<open>\<open>torch.round\<close> keeps the sign, also of a zero result, and leaves infinities and NaN.\<close>

fun rint32 :: "float32 \<Rightarrow> float32" where
  "rint32 (Finite s m) = Finite s (torch_round m)"
| "rint32 x = x"

text \<open>Comparisons are false on NaN, and the two zeros are equal.\<close>

fun le32 :: "float32 \<Rightarrow> float32 \<Rightarrow> bool" where
  "le32 (Finite s a) (Finite t b) = (val32 (Finite s a) \<le> val32 (Finite t b))"
| "le32 (Finite s a) (Infinity t) = (\<not> t)"
| "le32 (Infinity s) (Finite t b) = s"
| "le32 (Infinity s) (Infinity t) = (s \<or> \<not> t)"
| "le32 NaN y = False"
| "le32 x NaN = False"

definition lt32 :: "float32 \<Rightarrow> float32 \<Rightarrow> bool" where
  "lt32 x y = (le32 x y \<and> \<not> le32 y x)"

text \<open>
  \<open>clamp\<close> is \<open>min(max(x, lo), hi)\<close> and keeps NaN; the bounds \<open>n\<close> and \<open>p\<close> it is called with
  are never NaN.
\<close>

definition clamp32 :: "float32 \<Rightarrow> float32 \<Rightarrow> float32 \<Rightarrow> float32" where
  "clamp32 x lo hi =
     (let t = (if lt32 x lo then lo else x)
      in if lt32 hi t then hi else t)"

text \<open>
  The power with a natural number as exponent, taken as correctly rounded; on the base
  \<open>2\<close>, the only one the code uses, the exact result is representable up to the exponent
  \<open>127\<close>.
\<close>

definition pow32 :: "float32 \<Rightarrow> nat \<Rightarrow> float32" where
  "pow32 x k =
     (if k = 0 then Finite False 1
      else (case x of
              Finite s m \<Rightarrow> mk32 (s \<and> odd k) (m ^ k)
            | Infinity s \<Rightarrow> Infinity (s \<and> odd k)
            | NaN \<Rightarrow> NaN))"

definition single :: "float32 arith" where
  "single =
     \<lparr>f_add = add32, f_sub = sub32, f_mul = mul32, f_div = div32, f_neg = neg32,
      f_round = rint32, f_clamp = clamp32, f_ge = (\<lambda>x y. le32 y x), f_le = le32,
      f_pow = pow32, f_num = (\<lambda>k. of_real32 (of_int k))\<rparr>"

section \<open>Example objects\<close>

text \<open>
  An engine whose state is just whether it has seen enough statistics, and a per-channel
  quantizer over two such engines, the second one without statistics.
\<close>

definition native0 :: "bool native" where
  "native0 =
     \<lparr>getEncoding = (\<lambda>e b s st u.
          (\<lparr>enc_min = 0, enc_max = 1, enc_delta = 1 / (2 ^ b - 1), enc_offset = 0, bw = b\<rparr>, e)),
      resetEncodingStats = (\<lambda>e. False),
      quantizeDequantize = (\<lambda>e t enc round_mode. t)\<rparr>"

definition sg0 :: "bool StaticGridTensorQuantizer" where
  "sg0 =
     \<lparr>use_symmetric_encodings = False, use_strict_symmetric = False,
      use_unsigned_symmetric = True, bitwidth = 8, enabled = True, data_type = DT_int,
      is_encoding_frozen = False, sg_class = StaticGridPerChannelQuantizer,
      cppOp = [True, False], encoding_attr = PyNone, sg_ch_axis = 0\<rparr>"

definition enc4 :: TfEncoding where
  "enc4 = \<lparr>enc_min = 0, enc_max = 15, enc_delta = 1, enc_offset = 0, bw = 4\<rparr>"

definition sg1 :: "bool StaticGridTensorQuantizer" where
  "sg1 = sg0\<lparr>encoding_attr := PyList [PyEnc enc4, PyEnc enc4]\<rparr>"

definition lg0 :: "real LearnedGridTensorQuantizer" where
  "lg0 =
     \<lparr>use_symmetric_encodings = False, use_strict_symmetric = False,
      use_unsigned_symmetric = True, bitwidth = 8, enabled = True, data_type = DT_int,
      is_encoding_frozen = False, wrapper_ref = Some Map.empty, name = Some ''weight'',
      lg_n = 0, lg_p = 255, scaling = None, offset = None, lg_ch_axis = 0\<rparr>"

text \<open>\<open>lg0\<close> after the two-channel list \<open>[enc4, enc4]\<close> has been assigned to it.\<close>

definition lg0_assigned :: "real LearnedGridTensorQuantizer" where
  "lg0_assigned =
     lg0\<lparr>bitwidth := 4,
         wrapper_ref := Some (Map.empty
           (''weight_encoding_min'' \<mapsto> Some \<lparr>param_data = [0, 0], requires_grad = True\<rparr>,
            ''weight_encoding_max'' \<mapsto> Some \<lparr>param_data = [15, 15], requires_grad = True\<rparr>)),
         lg_n := 0, lg_p := 15\<rparr>"

text \<open>
  Tensors from Python lists (one and two axes), a conversion to the integer types that is
  exact on the integers they hold, and a two-channel example: a learned-grid quantizer
  with \<open>p = 3\<close>, a \<open>2 \<times> 2\<close> tensor and per-channel ranges \<open>[0, 3]\<close> and \<open>[0, 6]\<close>.
\<close>

definition vec :: "'a list \<Rightarrow> 'a tensor" where
  "vec xs = \<lparr>shape = [length xs], elem = (\<lambda>i. xs ! (i ! 0))\<rparr>"

definition mat :: "'a list list \<Rightarrow> 'a tensor" where
  "mat rows = \<lparr>shape = [length rows, length (rows ! 0)], elem = (\<lambda>i. rows ! (i ! 0) ! (i ! 1))\<rparr>"

definition cast_trunc :: "dtype \<Rightarrow> real \<Rightarrow> real" where
  "cast_trunc d x = of_int (if 0 \<le> x then \<lfloor>x\<rfloor> else \<lceil>x\<rceil>)"

definition lg2 :: "real LearnedGridTensorQuantizer" where
  "lg2 = lg0\<lparr>bitwidth := 2, lg_p := 3\<rparr>"

definition t22 :: "real tensor" where
  "t22 = mat [[2 / 5, 7], [3, - 1]]"

definition emin2 :: "real tensor" where "emin2 = vec [0, 0]"
definition emax2 :: "real tensor" where "emax2 = vec [3, 6]"

text \<open>
  A vector of two elements, a per-tensor range \<open>[0, 3]\<close>, upstream gradients of ones, and
  the contexts that the forward pass, in exact arithmetic, saves for the \<open>2 \<times> 2\<close> tensor
  with the per-tensor range (\<open>ctx1\<close>) and with the per-channel ranges (\<open>ctx2\<close>).
\<close>

definition tv :: "real tensor" where "tv = vec [2 / 5, 7 / 5]"
definition emin1 :: "real tensor" where "emin1 = vec [0]"
definition emax1 :: "real tensor" where "emax1 = vec [3]"
definition ones2 :: "real tensor" where "ones2 = vec [1, 1]"
definition ones22 :: "real tensor" where "ones22 = mat [[1, 1], [1, 1]]"
definition ctx1 :: "real ctx" where
  "ctx1 = snd (QuantizeDequantizeFunc_forward exact cast_trunc t22 emin1 emax1 lg2)"
definition ctx2 :: "real ctx" where
  "ctx2 = snd (QuantizeDequantizeFunc_forward exact cast_trunc t22 emin2 emax2 lg2)"

text \<open>
  The per-channel quantizer \<open>sg0\<close> with statistics in both engines, after
  \<open>compute_encoding\<close>.
\<close>

definition sg_pc :: "bool StaticGridTensorQuantizer" where
  "sg_pc = fst (compute_encoding native0 (sg0\<lparr>cppOp := [True, True]\<rparr>))"

text \<open>
  Gradient functions that only pass the upstream gradient on, and two wrappers with a
  weight and a bias: in \<open>w0\<close> the weight quantizer is disabled and no gradient has been
  received; in \<open>w1\<close> the bias quantizer is disabled and both have gradients.
\<close>

definition G0 :: "(real, unit) grad_fn" where
  "G0 = \<lparr>compute_intermediate_result_for_learned_grid = (\<lambda>t sc off. ()),
          compute_dloss_by_dx_using_scale_offset = (\<lambda>t g gp. g),
          compute_dloss_by_dmax = (\<lambda>t g r gp a. g),
          compute_dloss_by_dmin = (\<lambda>t g r gp a. tmap uminus g)\<rparr>"

definition w0 :: "real wrapper" where
  "w0 = \<lparr>named_parameters = [(''weight'', \<lparr>data = t22, grad_attr = None\<rparr>),
                             (''bias'', \<lparr>data = tv, grad_attr = None\<rparr>)],
          param_quantizers = [''weight'' \<mapsto> lg2\<lparr>enabled := False\<rparr>, ''bias'' \<mapsto> lg2],
          is_replica = None\<rparr>"

definition w1 :: "real wrapper" where
  "w1 = \<lparr>named_parameters = [(''weight'', \<lparr>data = t22, grad_attr = Some ones22\<rparr>),
                             (''bias'', \<lparr>data = tv, grad_attr = Some ones2\<rparr>)],
          param_quantizers = [''weight'' \<mapsto> lg2\<lparr>scaling := Some emax2, offset := Some emin2\<rparr>,
                              ''bias'' \<mapsto> lg2\<lparr>enabled := False\<rparr>],
          is_replica = None\<rparr>"

text \<open>
  A learned-grid quantizer in single precision with the bounds of the bit-width 8, and a
  conversion to the integer types that keeps the element.
\<close>

definition lg8 :: "float32 LearnedGridTensorQuantizer" where
  "lg8 =
     \<lparr>use_symmetric_encodings = False, use_strict_symmetric = False,
      use_unsigned_symmetric = True, bitwidth = 8, enabled = True, data_type = DT_int,
      is_encoding_frozen = False, wrapper_ref = Some Map.empty, name = Some ''weight'',
      lg_n = Finite False 0, lg_p = Finite False 255, scaling = None, offset = None, lg_ch_axis = 0\<rparr>"

definition cast_id :: "dtype \<Rightarrow> float32 \<Rightarrow> float32" where
  "cast_id d x = x"

section \<open>Tensor lemmas\<close>

lemma in_indices_iff:
  "i \<in> set (indices s) \<longleftrightarrow> length i = length s \<and> (\<forall>k<length s. i ! k < s ! k)"
  by (auto simp: indices_def product_lists_set list_all2_conv_all_nth)

lemma bidx_id: "i \<in> set (indices s) \<Longrightarrow> bidx s i = i"
  by (auto simp: in_indices_iff bidx_def list_eq_iff_nth_eq)

lemma shape_tmap [simp]: "shape (tmap f t) = shape t"
  by (simp add: tmap_def)

lemma elem_tmap [simp]: "elem (tmap f t) i = f (elem t i)"
  by (simp add: tmap_def)

lemma shape_tzip [simp]: "shape (tzip f a b) = bshape (shape a) (shape b)"
  by (simp add: tzip_def)

lemma elem_tzip [simp]: "elem (tzip f a b) i = f (bcast a i) (bcast b i)"
  by (simp add: tzip_def)

lemma bcast_tmap [simp]: "bcast (tmap f t) i = f (bcast t i)"
  by (simp add: bcast_def)

lemma bcast_self: "i \<in> set (indices (shape t)) \<Longrightarrow> bcast t i = elem t i"
  by (simp add: bcast_def bidx_id)

lemma length_bshape [simp]: "length (bshape a b) = max (length a) (length b)"
  by (auto simp: bshape_def pad_def)

lemma bshape_idem: "bshape (bshape a b) b = bshape a b"
proof (rule nth_equalityI)
  show "length (bshape (bshape a b) b) = length (bshape a b)" by simp
next
  fix k assume "k < length (bshape (bshape a b) b)"
  then have k: "k < max (length a) (length b)" by simp
  have p1: "pad (length b) (bshape a b) = bshape a b"
    by (simp add: pad_def)
  have p2: "pad (length (bshape a b)) b = pad (length a) b"
    by (simp add: pad_def)
  have l1: "length (pad (length b) a) = max (length a) (length b)"
    and l2: "length (pad (length a) b) = max (length a) (length b)"
    by (auto simp: pad_def)
  from k l1 l2 have e: "bshape a b ! k = (if pad (length b) a ! k = 1 then pad (length a) b ! k else pad (length b) a ! k)"
    by (simp add: bshape_def)
  have "bshape (bshape a b) b ! k = (if bshape a b ! k = 1 then pad (length a) b ! k else bshape a b ! k)"
    unfolding bshape_def[of "bshape a b" b] p1 p2 using k l2 by simp
  with e show "bshape (bshape a b) b ! k = bshape a b ! k"
    by simp
qed

lemma map2_replicate_right:
  "length xs = n \<Longrightarrow> map2 f xs (replicate n y) = map (\<lambda>x. f x y) xs"
  by (induction xs arbitrary: n) auto

lemma bshape_one: "bshape s [1] = (if s = [] then [1] else s)"
proof (cases s)
  case Nil
  then show ?thesis by (simp add: bshape_def pad_def)
next
  case (Cons x xs)
  have "pad (length s) [1] = replicate (length s) 1"
    using Cons by (simp add: pad_def replicate_append_same)
  moreover have "pad (length [1::nat]) s = s"
    using Cons by (simp add: pad_def)
  ultimately have "bshape s [1] = map2 (\<lambda>x y. if x = 1 then y else x) s (replicate (length s) 1)"
    by (simp add: bshape_def)
  also have "\<dots> = map (\<lambda>x. if x = 1 then 1 else x) s"
    by (rule map2_replicate_right) simp
  also have "\<dots> = s"
    by (induction s) auto
  finally show ?thesis using Cons by simp
qed

lemma bidx_one: "i \<noteq> [] \<Longrightarrow> bidx [Suc 0] i = [0]"
  by (cases i rule: rev_cases) (auto simp: bidx_def)

lemma bshape_self [simp]: "bshape s s = s"
  by (simp add: bshape_def pad_def list_eq_iff_nth_eq)

lemma bcast_tzip:
  "i \<in> set (indices (bshape (shape a) (shape b))) \<Longrightarrow> bcast (tzip f a b) i = f (bcast a i) (bcast b i)"
  by (simp add: bcast_def[of "tzip f a b"] bidx_id)

lemma forward_general:
  assumes cdo: "compute_delta_and_offset A tensor emin emax (lg_p q) (lg_ch_axis q) = (dl, off)"
    and sh: "shape off = shape dl"
    and i: "i \<in> set (indices (bshape (shape tensor) (shape dl)))"
  shows "shape (fst (QuantizeDequantizeFunc_forward A cast tensor emin emax q)) = bshape (shape tensor) (shape dl)"
    and "elem (fst (QuantizeDequantizeFunc_forward A cast tensor emin emax q)) i =
          f_mul A (f_add A (f_clamp A (f_sub A (f_round A (f_div A (bcast tensor i) (bcast dl i))) (bcast off i))
                                     (lg_n q) (lg_p q)) (bcast off i)) (bcast dl i)"
    and "shape (ctx_mask_tensor (snd (QuantizeDequantizeFunc_forward A cast tensor emin emax q))) = bshape (shape tensor) (shape dl)"
    and "elem (ctx_mask_tensor (snd (QuantizeDequantizeFunc_forward A cast tensor emin emax q))) i \<longleftrightarrow>
          f_ge A (f_sub A (f_round A (f_div A (bcast tensor i) (bcast dl i))) (bcast off i)) (lg_n q) \<and>
          f_le A (f_sub A (f_round A (f_div A (bcast tensor i) (bcast dl i))) (bcast off i)) (lg_p q)"
  using i
  by (simp_all add: QuantizeDequantizeFunc_forward_def Let_def cdo sh bshape_idem bcast_tzip bcast_self)

lemma bshape_same_length:
  "length a = length b \<Longrightarrow> bshape a b = map2 (\<lambda>x y. if x = 1 then y else x) a b"
  by (simp add: bshape_def pad_def)

lemma bshape_channel:
  assumes "a < length s"
  shows "bshape s ((replicate (length s) 1)[a := s ! a]) = s"
  using assms
  by (auto simp: bshape_same_length list_eq_iff_nth_eq nth_list_update)

lemma bidx_channel:
  assumes "length i = r" and "a < r" and "Suc 0 < k"
  shows "bidx ((replicate r (Suc 0))[a := k]) i ! a = i ! a"
  using assms by (simp add: bidx_def)

lemma len_vec [simp]: "shape t = [k] \<Longrightarrow> len t = k"
  by (simp add: len_def)

lemma bidx_vec: "k \<noteq> 1 \<Longrightarrow> bidx [k] [c] = [c]"
  by (simp add: bidx_def)

lemma bidx_vec0 [simp]: "bidx [k] [0] = [0]"
  by (simp add: bidx_def)

lemma cdo_per_tensor:
  assumes "shape emin = [1]" and "shape emax = [1]"
  shows "\<exists>dl off. compute_delta_and_offset A tensor emin emax steps a = (dl, off) \<and>
           shape dl = [1] \<and> shape off = [1] \<and>
           elem dl [0] = f_div A (f_sub A (elem emax [0]) (elem emin [0])) steps \<and>
           elem off [0] = f_round A (f_div A (elem emin [0]) (f_div A (f_sub A (elem emax [0]) (elem emin [0])) steps))"
  using assms
  by (simp add: compute_delta_and_offset_def Let_def bcast_def)

lemma cdo_per_channel:
  assumes "shape emin = [k]" and "shape emax = [k]" and "1 < k"
    and "a < length (shape tensor)" and "shape tensor ! a = k"
  shows "\<exists>dl off. compute_delta_and_offset A tensor emin emax steps a = (dl, off) \<and>
           shape dl = (replicate (length (shape tensor)) 1)[a := k] \<and> shape off = shape dl \<and>
           (\<forall>i. length i = length (shape tensor) \<longrightarrow>
              bcast dl i = f_div A (f_sub A (elem emax [i ! a]) (elem emin [i ! a])) steps \<and>
              bcast off i = f_round A (f_div A (elem emin [i ! a])
                               (f_div A (f_sub A (elem emax [i ! a]) (elem emin [i ! a])) steps)))"
  using assms
  by (simp add: compute_delta_and_offset_def Let_def broadcast_to_tensor_def bcast_def bidx_channel bidx_vec)

lemma clamp_id_iff: "lo \<le> hi \<Longrightarrow> clamp x lo hi = x \<longleftrightarrow> lo \<le> x \<and> x \<le> hi"
  by (auto simp: clamp_def min_def max_def)

lemma clamp_in: "lo \<le> x \<Longrightarrow> x \<le> hi \<Longrightarrow> clamp x lo hi = x"
  by (auto simp: clamp_def min_def max_def)

lemma keep_dims_all: "length xs \<le> r \<Longrightarrow> keep_dims [0..<r] xs = []"
  by (auto simp: keep_dims_def filter_empty_conv)

lemma filter_eq_upt: "a < r \<Longrightarrow> filter (\<lambda>k. k = a) [0..<r] = [a]"
proof -
  assume a: "a < r"
  then have "[0..<r] = [0..<a] @ a # [Suc a..<r]"
    by (metis le_add1 less_imp_add_positive upt_add_eq_append upt_conv_Cons plus_nat.add_0)
  then show ?thesis by (simp add: filter_empty_conv)
qed

lemma keep_dims_channel:
  assumes "a < r" and "length xs = r"
  shows "keep_dims ([0..<a] @ [Suc a..<r]) xs = [xs ! a]"
proof -
  have "filter (\<lambda>k. k \<notin> set ([0..<a] @ [Suc a..<r])) [0..<r] = filter (\<lambda>k. k = a) [0..<r]"
    using assms by (intro filter_cong) auto
  with assms show ?thesis
    by (simp add: keep_dims_def filter_eq_upt)
qed

lemma tsum_all:
  assumes "shape t = s"
  shows "shape (tsum [0..<length s] t) = []"
    and "elem (tsum [0..<length s] t) [] = sum_list (map (elem t) (indices s))"
proof -
  show "shape (tsum [0..<length s] t) = []"
    using assms by (simp add: tsum_def keep_dims_all)
  have "filter (\<lambda>i. keep_dims [0..<length s] i = []) (indices s) = indices s"
    by (simp add: filter_id_conv in_indices_iff keep_dims_all)
  then show "elem (tsum [0..<length s] t) [] = sum_list (map (elem t) (indices s))"
    using assms by (simp add: tsum_def)
qed

lemma tsum_channel:
  assumes "shape t = s" and "a < length s"
  shows "shape (tsum ([0..<a] @ [Suc a..<length s]) t) = [s ! a]"
    and "elem (tsum ([0..<a] @ [Suc a..<length s]) t) [ch] =
           sum_list (map (elem t) (filter (\<lambda>i. i ! a = ch) (indices s)))"
proof -
  let ?d = "[0..<a] @ [Suc a..<length s]"
  show "shape (tsum ?d t) = [s ! a]"
    using assms by (simp add: tsum_def keep_dims_channel)
  have "filter (\<lambda>i. keep_dims ?d i = [ch]) (indices s) = filter (\<lambda>i. i ! a = ch) (indices s)"
    using assms(2) by (intro filter_cong) (auto simp: in_indices_iff keep_dims_channel)
  then show "elem (tsum ?d t) [ch] = sum_list (map (elem t) (filter (\<lambda>i. i ! a = ch) (indices s)))"
    using assms by (simp add: tsum_def)
qed

lemma pop_upt: "a < r \<Longrightarrow> py_pop [0..<r] a = Inr ([0..<a] @ [Suc a..<r])"
  by (simp add: py_pop_def)

lemma shape_vec [simp]: "shape (vec xs) = [length xs]"
  by (simp add: vec_def)

lemma shape_mat [simp]: "shape (mat rows) = [length rows, length (rows ! 0)]"
  by (simp add: mat_def)

lemma map2_replicate_left:
  "length xs = n \<Longrightarrow> map2 f (replicate n y) xs = map (\<lambda>x. f y x) xs"
  by (induction xs arbitrary: n) auto

lemma bshape_one_left: "s \<noteq> [] \<Longrightarrow> bshape [1] s = s"
proof -
  assume ne: "s \<noteq> []"
  have "pad (length s) [1] = replicate (length s) 1"
    using ne by (cases s) (simp_all add: pad_def replicate_append_same)
  moreover have "pad (length [1::nat]) s = s"
    using ne by (cases s) (simp_all add: pad_def)
  ultimately have "bshape [1] s = map2 (\<lambda>x y. if x = 1 then y else x) (replicate (length s) 1) s"
    by (simp add: bshape_def)
  also have "\<dots> = map (\<lambda>x. x) s"
    by (subst map2_replicate_left) simp_all
  finally show ?thesis by simp
qed

lemma bshape_nil [simp]: "bshape s [] = s" "bshape [] s = s"
  by (simp_all add: bshape_def pad_def list_eq_iff_nth_eq)

lemma bcast_scalar: "shape t = [] \<Longrightarrow> bcast t i = elem t []"
  by (simp add: bcast_def bidx_def)

lemma in_indices_vec: "[ch] \<in> set (indices [k]) \<longleftrightarrow> ch < k"
  by (simp add: in_indices_iff)

section \<open>Static-grid quantizer: computing and freezing the encoding\<close>

lemma compute_encoding_loop_eq:
  "compute_encoding_loop N b symm strict unsgn ops (en, encs) =
     (en \<and> (\<forall>op\<in>set ops. snd (getEncoding N op b symm strict unsgn)),
      encs @ map fst (filter snd (map (\<lambda>op. getEncoding N op b symm strict unsgn) ops)))"
  by (induction ops arbitrary: en encs) (auto simp: Let_def split: prod.splits)

text \<open>
  C4. On an enabled, unfrozen static-grid quantizer, \<open>compute_encoding\<close> with the float data
  type sets the encoding to \<open>None\<close>. With the integer data type it asks every engine: the
  encoding becomes the list of the valid answers, \<open>enabled\<close> stays true only if every
  answer is valid, and the call ends in an assertion failure exactly when some answers are
  valid and others are not.
\<close>

theorem compute_encoding_spec:
  assumes "enabled q" and "\<not> is_encoding_frozen q"
  shows "(data_type q = DT_float \<longrightarrow> compute_encoding N q = (q\<lparr>encoding_attr := PyNone\<rparr>, None)) \<and>
         (data_type q = DT_int \<longrightarrow>
            fst (compute_encoding N q) =
              q\<lparr>enabled := (\<forall>r\<in>set (engine_answers N q). snd r),
                encoding_attr := PyList (map (PyEnc \<circ> fst) (filter snd (engine_answers N q)))\<rparr> \<and>
            snd (compute_encoding N q) =
              (if (\<exists>r\<in>set (engine_answers N q). \<not> snd r) \<and> (\<exists>r\<in>set (engine_answers N q). snd r)
               then Some (AssertionError '''') else None))"
  using assms
  by (simp add: compute_encoding_def compute_encoding_loop_eq engine_answers_def Let_def
      filter_empty_conv)

theorem compute_encoding_spec_witness:
  "enabled sg0 \<and> \<not> is_encoding_frozen sg0 \<and> data_type sg0 = DT_int \<and>
   \<not> enabled (fst (compute_encoding native0 sg0)) \<and>
   snd (compute_encoding native0 sg0) = Some (AssertionError '''') \<and>
   data_type (sg0\<lparr>data_type := DT_float\<rparr>) = DT_float \<and>
   compute_encoding native0 (sg0\<lparr>data_type := DT_float\<rparr>) =
     (sg0\<lparr>data_type := DT_float, encoding_attr := PyNone\<rparr>, None)"
  using compute_encoding_spec [of sg0 native0]
    compute_encoding_spec [of "sg0\<lparr>data_type := DT_float\<rparr>" native0]
  by (simp add: sg0_def native0_def engine_answers_def)

lemma frozen_step_id: "is_encoding_frozen q \<Longrightarrow> fst (sg_step N c q) = q"
  by (cases c)
    (auto simp: sg_set_encoding_def compute_encoding_def reset_encoding_stats_def
      freeze_encoding_def)

lemma frozen_run_id: "is_encoding_frozen q \<Longrightarrow> sg_run N cs q = q"
  by (induction cs) (simp_all add: frozen_step_id)

text \<open>
  C5. \<open>freeze_encoding\<close> raises when \<open>_encoding\<close> is \<open>None\<close> or empty and otherwise sets the
  frozen flag. On a frozen quantizer an encoding assignment raises and leaves the object
  as it was, \<open>compute_encoding\<close> changes nothing, and after any run of assignments,
  \<open>compute_encoding\<close>, \<open>reset_encoding_stats\<close> and \<open>freeze_encoding\<close> calls the object, its
  encoding and its frozen flag included, is the same.
\<close>

theorem freeze_monotone:
  "(\<not> truthy (encoding_attr q) \<longrightarrow>
      freeze_encoding q =
        (q, Some (RuntimeError ''Encoding can be frozen only when it is not None.''))) \<and>
   (truthy (encoding_attr q) \<longrightarrow> freeze_encoding q = (q\<lparr>is_encoding_frozen := True\<rparr>, None)) \<and>
   (is_encoding_frozen q \<longrightarrow>
      sg_set_encoding q e =
        (q, Some (RuntimeError ''Encoding can be set only when it is not frozen.'')) \<and>
      compute_encoding N q = (q, None) \<and>
      sg_run N cs q = q)"
  by (simp add: freeze_encoding_def sg_set_encoding_def compute_encoding_def frozen_run_id)

theorem freeze_monotone_witness:
  "\<not> truthy (encoding_attr sg0) \<and>
   freeze_encoding sg0 =
     (sg0, Some (RuntimeError ''Encoding can be frozen only when it is not None.'')) \<and>
   truthy (encoding_attr sg1) \<and>
   freeze_encoding sg1 = (sg1\<lparr>is_encoding_frozen := True\<rparr>, None) \<and>
   is_encoding_frozen (sg1\<lparr>is_encoding_frozen := True\<rparr>) \<and>
   sg_set_encoding (sg1\<lparr>is_encoding_frozen := True\<rparr>) PyNone =
     (sg1\<lparr>is_encoding_frozen := True\<rparr>,
      Some (RuntimeError ''Encoding can be set only when it is not frozen.'')) \<and>
   sg_run native0 [SetEncoding PyNone, ComputeEncoding, ResetEncodingStats, FreezeEncoding]
     (sg1\<lparr>is_encoding_frozen := True\<rparr>) = sg1\<lparr>is_encoding_frozen := True\<rparr>"
proof -
  have a: "\<not> truthy (encoding_attr sg0)"
    by (simp add: sg0_def)
  have b: "truthy (encoding_attr sg1)"
    by (simp add: sg1_def)
  have c: "is_encoding_frozen (sg1\<lparr>is_encoding_frozen := True\<rparr>)"
    by simp
  from a freeze_monotone [of sg0 PyNone native0 "[]"]
  have 1: "freeze_encoding sg0 =
      (sg0, Some (RuntimeError ''Encoding can be frozen only when it is not None.''))"
    by blast
  from b freeze_monotone [of sg1 PyNone native0 "[]"]
  have 2: "freeze_encoding sg1 = (sg1\<lparr>is_encoding_frozen := True\<rparr>, None)"
    by blast
  from c freeze_monotone [of "sg1\<lparr>is_encoding_frozen := True\<rparr>" PyNone native0
      "[SetEncoding PyNone, ComputeEncoding, ResetEncodingStats, FreezeEncoding]"]
  have 3: "sg_set_encoding (sg1\<lparr>is_encoding_frozen := True\<rparr>) PyNone =
      (sg1\<lparr>is_encoding_frozen := True\<rparr>,
       Some (RuntimeError ''Encoding can be set only when it is not frozen.''))"
    and 4: "sg_run native0
       [SetEncoding PyNone, ComputeEncoding, ResetEncodingStats, FreezeEncoding]
       (sg1\<lparr>is_encoding_frozen := True\<rparr>) = sg1\<lparr>is_encoding_frozen := True\<rparr>"
    by blast+
  from a 1 b 2 c 3 4 show ?thesis
    by blast
qed

section \<open>Single precision: representable numbers\<close>

text \<open>
  A positive real with exponent \<open>e\<close> in the normal range is rounded on the grid of spacing
  \<open>2 ^ (e - 23)\<close>.
\<close>

lemma pow2_powr: "pow2 e = 2 powr (of_int e)"
  by (auto simp: pow2_def powr_real_of_int inverse_eq_divide)

lemma pow2_pos: "0 < pow2 e"
  by (simp add: pow2_def)

lemma pow2_add: "pow2 (a + b) = pow2 a * pow2 b"
  by (simp add: pow2_powr powr_add)

lemma pow2_nat: "pow2 (int k) = 2 ^ k"
  by (simp add: pow2_def)

lemma pow2_mono: "a \<le> b \<Longrightarrow> pow2 a \<le> pow2 b"
  by (simp add: pow2_powr)

lemma floor_log2:
  assumes "pow2 e \<le> x" and "x < pow2 (e + 1)"
  shows "\<lfloor>log 2 x\<rfloor> = e"
proof -
  have x: "0 < x" using assms(1) pow2_pos[of e] by simp
  have "of_int e \<le> log 2 x" using assms(1) x by (simp add: le_log_iff pow2_powr)
  moreover have "log 2 x < of_int e + 1" using assms(2) x by (simp add: log_less_iff pow2_powr)
  ultimately show ?thesis by (simp add: floor_eq_iff)
qed

lemma ulp_exp_eq:
  "pow2 e \<le> x \<Longrightarrow> x < pow2 (e + 1) \<Longrightarrow> - 126 \<le> e \<Longrightarrow> ulp_exp x = e - 23"
  by (simp add: ulp_exp_def floor_log2)

lemma mk32_normal:
  assumes "pow2 e \<le> x" and "x < pow2 (e + 1)" and "- 126 \<le> e"
    and "torch_round (x / pow2 (e - 23)) * pow2 (e - 23) = m" and "m < 2 ^ 128"
  shows "mk32 s x = Finite s m"
proof -
  have "x \<noteq> 0" using assms(1) pow2_pos[of e] by simp
  moreover have "round_mag x = m"
    using assms by (simp add: round_mag_def ulp_exp_eq)
  ultimately show ?thesis using assms(5) by (simp add: mk32_def)
qed

lemma torch_round_int: "torch_round (of_int z) = of_int z"
  by (simp add: torch_round_def)

text \<open>Every integer of at most 24 bits and every power of two up to \<open>2 ^ 127\<close> is representable.\<close>

lemma mk32_int:
  assumes "0 < k" and "k < 2 ^ 24"
  shows "mk32 s (of_int k) = Finite s (of_int k)"
proof -
  define e where "e = \<lfloor>log 2 (of_int k)\<rfloor>"
  have k1: "1 \<le> (of_int k :: real)" using assms(1) by simp
  have e0: "0 \<le> e" unfolding e_def using k1 by simp
  have lo: "pow2 e \<le> of_int k"
  proof -
    have "of_int e \<le> log 2 (of_int k)" unfolding e_def by simp
    then show ?thesis using k1 by (simp add: pow2_powr le_log_iff)
  qed
  have hi: "of_int k < pow2 (e + 1)"
  proof -
    have "log 2 (of_int k) < of_int e + 1" unfolding e_def by linarith
    then show ?thesis using k1 by (simp add: pow2_powr log_less_iff)
  qed
  have e23: "e \<le> 23"
  proof (rule ccontr)
    assume "\<not> e \<le> 23"
    then have "24 \<le> e" by simp
    then have "pow2 24 \<le> pow2 e" by (rule pow2_mono)
    with lo have "(2::real) ^ 24 \<le> of_int k" by (simp add: pow2_def)
    moreover have "(of_int k :: real) < 2 ^ 24" using assms(2) by (metis of_int_less_iff of_int_numeral of_int_power)
    ultimately show False by simp
  qed
  have p: "pow2 (e - 23) = 1 / 2 ^ nat (23 - e)"
    using e23 by (cases "e = 23") (auto simp: pow2_def)
  have q: "of_int k / pow2 (e - 23) = of_int (k * 2 ^ nat (23 - e))"
    by (simp add: p)
  have "torch_round (of_int k / pow2 (e - 23)) * pow2 (e - 23) = of_int k"
    unfolding q torch_round_int by (simp add: p)
  moreover have "(of_int k :: real) < 2 ^ 128"
  proof -
    have "(of_int k :: real) < 2 ^ 24" using assms(2) by (metis of_int_less_iff of_int_numeral of_int_power)
    also have "\<dots> < 2 ^ 128" by simp
    finally show ?thesis .
  qed
  ultimately show ?thesis
    using mk32_normal[OF lo hi _ _ , of "of_int k" s] e0 by simp
qed

lemma mk32_pow2:
  assumes "b \<le> 127"
  shows "mk32 s (2 ^ b) = Finite s (2 ^ b)"
proof -
  have lo: "pow2 (int b) \<le> 2 ^ b" by (simp add: pow2_nat)
  have hi: "2 ^ b < pow2 (int b + 1)"
    using pow2_nat[of "Suc b"] by (simp add: add.commute)
  have "pow2 (int b) = pow2 23 * pow2 (int b - 23)"
    using pow2_add[of 23 "int b - 23"] by simp
  then have d: "2 ^ b / pow2 (int b - 23) = of_int (2 ^ 23)"
    using pow2_pos[of "int b - 23"] by (simp add: pow2_nat[symmetric] pow2_def[of 23])
  have m: "torch_round (2 ^ b / pow2 (int b - 23)) * pow2 (int b - 23) = 2 ^ b"
    unfolding d torch_round_int
    using pow2_add[of 23 "int b - 23"] by (simp add: pow2_nat[symmetric] pow2_def[of 23])
  have "(2::real) ^ b < 2 ^ 128"
    by (rule power_strict_increasing) (use assms in auto)
  with mk32_normal[OF lo hi _ m, of s] show ?thesis by simp
qed

text \<open>Integers as single-precision values, and their subtraction where the result has at most 24 bits.\<close>

lemma of_real32_int:
  "\<bar>v\<bar> < 2 ^ 24 \<Longrightarrow> of_real32 (of_int v) = Finite (v < 0) \<bar>of_int v\<bar>"
proof (cases "v = 0")
  case True
  then show ?thesis by (simp add: of_real32_def mk32_def)
next
  case False
  assume "\<bar>v\<bar> < 2 ^ 24"
  with False mk32_int[of "\<bar>v\<bar>" "v < 0"] show ?thesis
    by (simp add: of_real32_def)
qed

lemma sub32_int:
  assumes "\<bar>x - y\<bar> < 2 ^ 24"
  shows "sub32 (Finite (x < 0) \<bar>of_int x\<bar>) (Finite (y < 0) \<bar>of_int y\<bar>) =
           Finite (x - y < 0) \<bar>of_int (x - y)\<bar>"
proof -
  have v: "val32 (Finite (x < 0) \<bar>of_int x\<bar>) + val32 (Finite (\<not> y < 0) \<bar>of_int y\<bar>) = of_int (x - y)"
    by auto
  show ?thesis
  proof (cases "x = y")
    case True
    then show ?thesis by (simp add: sub32_def)
  next
    case False
    then have "(of_int (x - y) :: real) \<noteq> 0" by simp
    then show ?thesis
      unfolding sub32_def neg32.simps add32.simps v Let_def
      using of_real32_int[OF assms] by simp
  qed
qed

lemma of_real32_num: "of_real32 0 = Finite False 0" "of_real32 1 = Finite False 1"
  "of_real32 2 = Finite False 2"
  using of_real32_int[of 0] of_real32_int[of 1] of_real32_int[of 2]
  by simp_all

lemma num32: "f_num single 0 = Finite False 0" "f_num single 1 = Finite False 1"
  "f_num single 2 = Finite False 2"
  by (simp_all add: single_def of_real32_num)

lemma pow32_two: "b \<le> 127 \<Longrightarrow> pow32 (Finite False 2) b = Finite False (2 ^ b)"
  by (simp add: pow32_def mk32_pow2)

section \<open>Learned-grid quantizer: bounds and the encoding setter\<close>

text \<open>
  \<open>get_n_and_p\<close> raises when strict-symmetric is asked for without symmetric; otherwise
  \<open>n\<close> is the runtime's \<open>0\<close> and \<open>p\<close> is the runtime's power \<open>2 ^ b\<close> with \<open>1\<close>
  subtracted from it by the runtime, once, and a second time when both flags are set.
\<close>

lemma get_n_and_p_eq:
  "get_n_and_p A b s st =
     (if st \<and> \<not> s
      then Inl (ValueError ''Strict symmetric can be enabled only when using symmetric encoding'')
      else Inr (f_num A 0,
                if s \<and> st then f_sub A (f_sub A (f_pow A (f_num A 2) b) (f_num A 1)) (f_num A 1)
                else f_sub A (f_pow A (f_num A 2) b) (f_num A 1)))"
  by (simp add: get_n_and_p_def Let_def)

text \<open>In exact arithmetic the bounds are \<open>0\<close> and \<open>2 ^ b - 1\<close>, less one when both flags are set.\<close>

lemma get_n_and_p_exact:
  "get_n_and_p exact b s st =
     (if st \<and> \<not> s
      then Inl (ValueError ''Strict symmetric can be enabled only when using symmetric encoding'')
      else Inr (0, 2 ^ b - 1 - (if s \<and> st then 1 else 0)))"
  by (simp add: get_n_and_p_def exact_def Let_def)

text \<open>
  In single precision the bounds are those of the specification up to the bit-width 24.
\<close>

lemma get_n_and_p_single:
  assumes "b \<le> 24"
  shows "get_n_and_p single b s st =
     (if st \<and> \<not> s
      then Inl (ValueError ''Strict symmetric can be enabled only when using symmetric encoding'')
      else Inr (Finite False 0,
                Finite (2 ^ b - 1 - (if s \<and> st then 1 else 0) < (0::int))
                       \<bar>of_int (2 ^ b - 1 - (if s \<and> st then 1 else 0))\<bar>))"
proof -
  have b: "(2::int) ^ b \<le> 2 ^ 24"
    by (rule power_increasing) (use assms in auto)
  have p: "f_pow single (f_num single 2) b = Finite ((2::int) ^ b < 0) \<bar>of_int (2 ^ b)\<bar>"
    using assms pow32_two[of b] by (simp add: single_def of_real32_num)
  have one: "f_num single 1 = Finite ((1::int) < 0) \<bar>of_int 1\<bar>"
    by (simp add: num32)
  have pos: "1 \<le> (2::int) ^ b" by simp
  have n24: "(2::int) ^ 24 = 16777216" by simp
  have a1: "\<bar>(2::int) ^ b - 1\<bar> < 2 ^ 24" using b pos n24 by linarith
  have a2: "\<bar>(2::int) ^ b - 1 - 1\<bar> < 2 ^ 24" using b pos n24 by linarith
  have s1: "f_sub single (f_pow single (f_num single 2) b) (f_num single 1) =
              Finite ((2::int) ^ b - 1 < 0) \<bar>of_int (2 ^ b - 1)\<bar>"
    unfolding p one using sub32_int[OF a1] by (simp add: single_def)
  have s2: "f_sub single (Finite ((2::int) ^ b - 1 < 0) \<bar>of_int (2 ^ b - 1)\<bar>) (f_num single 1) =
              Finite ((2::int) ^ b - 1 - 1 < 0) \<bar>of_int (2 ^ b - 1 - 1)\<bar>"
    unfolding one using sub32_int[OF a2] by (simp add: single_def)
  show ?thesis
    unfolding get_n_and_p_eq s1 s2 by (simp add: num32)
qed

text \<open>
  From the bit-width 25 on, \<open>2 ^ b - 1\<close> is not representable and the subtraction returns
  \<open>2 ^ b\<close> again.
\<close>

lemma sub32_pow2_one:
  assumes "25 \<le> b" and "b \<le> 127"
  shows "sub32 (Finite False (2 ^ b)) (Finite False 1) = Finite False (2 ^ b)"
proof -
  define c where "c = b - 24"
  have b: "b = 24 + c" and c: "1 \<le> c" using assms by (simp_all add: c_def)
  have u2: "(2::real) \<le> 2 ^ c"
    using power_increasing[of 1 c "2::real"] c by simp
  have pb: "(2::real) ^ b = 2 ^ 24 * 2 ^ c"
    unfolding b by (rule power_add)
  have pu: "pow2 (int b - 24) = 2 ^ c"
    using pow2_nat[of c] by (simp add: b)
  have q: "(2 ^ b - 1) / pow2 (int b - 24) = 2 ^ 24 - 1 / 2 ^ c"
    unfolding pu pb by (simp add: field_simps)
  have small: "0 < 1 / (2::real) ^ c" "1 / (2::real) ^ c \<le> 1 / 2"
    using u2 by (simp_all add: field_simps)
  have fl: "\<lfloor>(2::real) ^ 24 - 1 / 2 ^ c\<rfloor> = 2 ^ 24 - 1"
    by (rule floor_unique) (use small in auto)
  have tr: "torch_round (2 ^ 24 - 1 / 2 ^ c) = 2 ^ 24"
    unfolding torch_round_def Let_def fl using small by auto
  have m: "torch_round ((2 ^ b - 1) / pow2 (int b - 1 - 23)) * pow2 (int b - 1 - 23) = 2 ^ b"
    using q tr pu pb by simp
  have lo: "pow2 (int b - 1) \<le> 2 ^ b - 1"
  proof -
    have "pow2 (int b - 1) = 2 ^ (b - 1)"
      using pow2_nat[of "b - 1"] assms(1) by (simp add: of_nat_diff)
    moreover have "(2::real) ^ b = 2 * 2 ^ (b - 1)"
      using assms(1) by (cases b) auto
    moreover have "(1::real) \<le> 2 ^ (b - 1)" by simp
    ultimately show ?thesis by linarith
  qed
  have hi: "(2::real) ^ b - 1 < pow2 (int b - 1 + 1)"
    using pow2_nat[of b] by simp
  have lt: "(2::real) ^ b < 2 ^ 128"
    by (rule power_strict_increasing) (use assms in auto)
  have "mk32 False (2 ^ b - 1) = Finite False (2 ^ b)"
    using mk32_normal[OF lo hi _ m lt] assms by simp
  moreover have "(2::real) ^ b - 1 \<noteq> 0"
    using pb u2 by simp
  moreover have "\<not> (2::real) ^ b < 1"
    using pb u2 by simp
  ultimately show ?thesis
    by (simp add: sub32_def of_real32_def)
qed

lemma get_n_and_p_single_from_25:
  assumes "25 \<le> b" and "b \<le> 127"
  shows "get_n_and_p single b s st =
     (if st \<and> \<not> s
      then Inl (ValueError ''Strict symmetric can be enabled only when using symmetric encoding'')
      else Inr (Finite False 0, Finite False (2 ^ b)))"
proof -
  have p: "f_pow single (f_num single 2) b = Finite False (2 ^ b)"
    using assms pow32_two[of b] by (simp add: single_def of_real32_num)
  have s: "f_sub single (Finite False (2 ^ b)) (f_num single 1) = Finite False (2 ^ b)"
    using sub32_pow2_one[OF assms] by (simp add: single_def of_real32_num)
  show ?thesis
    unfolding get_n_and_p_eq p s by (simp add: num32)
qed

lemma sub32_one_32:
  "sub32 (Finite False 4294967296) (Finite False 1) = Finite False 4294967296"
proof -
  have "of_real32 4294967295 = Finite False 4294967296"
    using mk32_normal[of 31 4294967295 4294967296 False]
    by (simp add: of_real32_def pow2_def torch_round_def Let_def)
  then show ?thesis by (simp add: sub32_def)
qed

text \<open>
  C7 fails on the code from the bit-width 25 on. At the bit-width 32 the bounds computed in
  single precision are \<open>n = 0\<close> and \<open>p = 2 ^ 32 = 4294967296\<close>, with and without strict
  symmetric, where the specification has \<open>2 ^ 32 - 1\<close> and \<open>2 ^ 32 - 2\<close>, the results of
  exact arithmetic; the error for strict without symmetric is raised as specified.
\<close>

theorem get_n_and_p_bitwidth_32:
  "get_n_and_p single 32 False False = Inr (Finite False 0, Finite False 4294967296) \<and>
   get_n_and_p single 32 True False = Inr (Finite False 0, Finite False 4294967296) \<and>
   get_n_and_p single 32 True True = Inr (Finite False 0, Finite False 4294967296) \<and>
   get_n_and_p single 32 False True =
     Inl (ValueError ''Strict symmetric can be enabled only when using symmetric encoding'') \<and>
   get_n_and_p exact 32 False False = Inr (0, 4294967295) \<and>
   get_n_and_p exact 32 True True = Inr (0, 4294967294)"
proof -
  have p: "f_pow single (f_num single 2) 32 = Finite False 4294967296"
    using pow32_two[of 32] by (simp add: single_def of_real32_num)
  have s: "f_sub single (Finite False 4294967296) (f_num single 1) = Finite False 4294967296"
    using sub32_one_32 by (simp add: single_def of_real32_num)
  have e: "get_n_and_p exact 32 False False = Inr (0, 4294967295) \<and>
           get_n_and_p exact 32 True True = Inr (0, 4294967294)"
    by (simp add: get_n_and_p_def exact_def Let_def)
  show ?thesis
    unfolding get_n_and_p_eq[of single] p s using e by (simp add: num32)
qed

text \<open>
  C9. On a disabled learned-grid quantizer the encoding setter returns without an
  exception and leaves the quantizer and the wrapper's parameters as they were, whatever
  is assigned (\<open>None\<close> included) and whether or not the quantizer is frozen.
\<close>

theorem lg_set_encoding_disabled:
  "\<not> enabled q \<Longrightarrow> lg_set_encoding A q encoding = (q, None)"
  by (simp add: lg_set_encoding_def)

theorem lg_set_encoding_disabled_witness:
  "\<not> enabled (lg0\<lparr>enabled := False, is_encoding_frozen := True\<rparr>) \<and>
   lg_set_encoding exact (lg0\<lparr>enabled := False, is_encoding_frozen := True\<rparr>) PyNone =
     (lg0\<lparr>enabled := False, is_encoding_frozen := True\<rparr>, None)"
  using lg_set_encoding_disabled [of "lg0\<lparr>enabled := False, is_encoding_frozen := True\<rparr>" exact PyNone]
  by (simp add: lg0_def)

lemma semp_bitwidth:
  "set_encoding_min_max_parameters q e = (q1, None) \<Longrightarrow> first_bw e = Some (bitwidth q1)"
  by (auto simp: set_encoding_min_max_parameters_def Let_def
      split: option.splits pyenc.splits list.splits)

lemma spn_ok:
  "first_bw e = Some (bitwidth q) \<Longrightarrow>
     snd (set_p_and_n A q e) \<noteq> Some (AssertionError ''Bitwidth mismatched.'')"
  by (cases e rule: first_bw.cases)
    (auto simp: set_p_and_n_def get_n_and_p_def Let_def split: sum.splits)

lemma spn_fields:
  "set_p_and_n A q e = (q', None) \<Longrightarrow>
     bitwidth q' = bitwidth q \<and>
     get_n_and_p A (bitwidth q') (use_symmetric_encodings q') (use_strict_symmetric q') =
       Inr (lg_n q', lg_p q')"
  by (auto simp: set_p_and_n_def split: sum.splits if_splits prod.splits)

text \<open>
  C10. When the setter succeeds on an enabled, unfrozen learned-grid quantizer, the stored
  bit-width is the \<open>bw\<close> of the assigned encoding (of the first one for a list) and \<open>n\<close>, \<open>p\<close>
  are the bounds of that bit-width; and no call of the setter ends in the bit-width
  mismatch assertion of \<open>_set_p_and_n\<close>.
\<close>

theorem lg_set_encoding_bitwidth:
  "(enabled q \<and> \<not> is_encoding_frozen q \<and> lg_set_encoding A q e = (q', None) \<longrightarrow>
      first_bw e = Some (bitwidth q') \<and>
      get_n_and_p A (bitwidth q') (use_symmetric_encodings q') (use_strict_symmetric q') =
        Inr (lg_n q', lg_p q')) \<and>
   snd (lg_set_encoding A q e) \<noteq> Some (AssertionError ''Bitwidth mismatched.'')"
proof (intro conjI impI)
  assume a: "enabled q \<and> \<not> is_encoding_frozen q \<and> lg_set_encoding A q e = (q', None)"
  then obtain q1 where q1: "set_encoding_min_max_parameters q e = (q1, None)"
    and q': "set_p_and_n A q1 e = (q', None)"
    by (auto simp: lg_set_encoding_def split: if_splits prod.splits option.splits)
  from spn_fields[OF q'] semp_bitwidth[OF q1]
  show "first_bw e = Some (bitwidth q')" by simp
  show "get_n_and_p A (bitwidth q') (use_symmetric_encodings q') (use_strict_symmetric q') =
          Inr (lg_n q', lg_p q')"
    using spn_fields[OF q'] by (rule conjunct2)
next
  show "snd (lg_set_encoding A q e) \<noteq> Some (AssertionError ''Bitwidth mismatched.'')"
  proof (cases "set_encoding_min_max_parameters q e")
    case (Pair q1 r)
    show ?thesis
    proof (cases r)
      case None
      with Pair spn_ok[OF semp_bitwidth, of q e q1 A] show ?thesis
        by (auto simp: lg_set_encoding_def)
    next
      case (Some err)
      with Pair have "err \<noteq> AssertionError ''Bitwidth mismatched.''"
        by (auto simp: set_encoding_min_max_parameters_def Let_def
            split: option.splits pyenc.splits list.splits)
      with Pair Some show ?thesis
        by (auto simp: lg_set_encoding_def)
    qed
  qed
qed

theorem lg_set_encoding_bitwidth_witness:
  "enabled lg0 \<and> \<not> is_encoding_frozen lg0 \<and> bitwidth lg0 = 8 \<and>
   lg_set_encoding exact lg0 (PyList [PyEnc enc4, PyEnc enc4]) = (lg0_assigned, None) \<and>
   first_bw (PyList [PyEnc enc4, PyEnc enc4]) = Some (bitwidth lg0_assigned) \<and>
   bitwidth lg0_assigned = 4 \<and>
   get_n_and_p exact 4 False False = Inr (lg_n lg0_assigned, lg_p lg0_assigned)"
proof -
  have h: "enabled lg0 \<and> \<not> is_encoding_frozen lg0 \<and> bitwidth lg0 = 8"
    by (simp add: lg0_def)
  have r: "lg_set_encoding exact lg0 (PyList [PyEnc enc4, PyEnc enc4]) = (lg0_assigned, None)"
    by (simp add: lg_set_encoding_def set_encoding_min_max_parameters_def set_p_and_n_def
        get_n_and_p_def exact_def lg0_def lg0_assigned_def enc4_def Let_def)
  have f: "bitwidth lg0_assigned = 4 \<and> \<not> use_symmetric_encodings lg0_assigned \<and>
      \<not> use_strict_symmetric lg0_assigned"
    by (simp add: lg0_assigned_def lg0_def)
  from h r lg_set_encoding_bitwidth [of lg0 exact "PyList [PyEnc enc4, PyEnc enc4]" lg0_assigned]
  have "first_bw (PyList [PyEnc enc4, PyEnc enc4]) = Some (bitwidth lg0_assigned) \<and>
        get_n_and_p exact (bitwidth lg0_assigned) (use_symmetric_encodings lg0_assigned)
          (use_strict_symmetric lg0_assigned) = Inr (lg_n lg0_assigned, lg_p lg0_assigned)"
    by blast
  with h r f show ?thesis
    by simp
qed

section \<open>QuantizeDequantizeFunc: forward\<close>

text \<open>
  C1. Let the encoding min and max be vectors of the same length \<open>k\<close>, with \<open>k = 1\<close>
  (per-tensor) or \<open>k > 1\<close> equal to the size of the tensor's channel axis. All arithmetic
  is the runtime's. At every index of the output, with \<open>delta = (max - min) / steps\<close> and
  \<open>offset = round(min / delta)\<close> taken at the index's channel (they are what the saved,
  broadcast delta and offset hold at that index) and \<open>q = round(x / delta) - offset\<close> for
  the tensor's element \<open>x\<close> there, the output is \<open>(clamp(q, n, p) + offset) * delta\<close> and the
  saved mask is true exactly when \<open>q \<ge> n\<close> and \<open>q \<le> p\<close>; so, clamp leaving unchanged what
  lies within the bounds, the mask is false wherever the clamp changed \<open>q\<close>. The output has
  the tensor's shape (shape \<open>[1]\<close> for a 0-dimensional tensor).
\<close>

theorem forward_spec:
  assumes mn: "shape encoding_min = [k]" and mx: "shape encoding_max = [k]"
    and k: "k = 1 \<or> (1 < k \<and> lg_ch_axis q < length (shape tensor) \<and> shape tensor ! lg_ch_axis q = k)"
    and i: "i \<in> set (indices (shape (fst (QuantizeDequantizeFunc_forward A cast tensor encoding_min encoding_max q))))"
  shows "let out = fst (QuantizeDequantizeFunc_forward A cast tensor encoding_min encoding_max q);
             saved = snd (QuantizeDequantizeFunc_forward A cast tensor encoding_min encoding_max q);
             mask = ctx_mask_tensor saved;
             c = chan k (lg_ch_axis q) i;
             d = spec_delta A encoding_min encoding_max (lg_p q) c;
             o' = spec_offset A encoding_min encoding_max (lg_p q) c;
             qv = spec_quantize A (bcast tensor i) d o'
         in shape out = (if shape tensor = [] then [1] else shape tensor) \<and>
            shape mask = shape out \<and>
            bcast (ctx_delta saved) i = d \<and>
            bcast (ctx_offset saved) i = o' \<and>
            elem out i = f_mul A (f_add A (f_clamp A qv (lg_n q) (lg_p q)) o') d \<and>
            (elem mask i \<longleftrightarrow> f_ge A qv (lg_n q) \<and> f_le A qv (lg_p q)) \<and>
            ((\<forall>x. f_ge A x (lg_n q) \<and> f_le A x (lg_p q) \<longrightarrow> f_clamp A x (lg_n q) (lg_p q) = x) \<longrightarrow>
               f_clamp A qv (lg_n q) (lg_p q) \<noteq> qv \<longrightarrow> \<not> elem mask i)"
proof -
  let ?F = "QuantizeDequantizeFunc_forward A cast tensor encoding_min encoding_max q"
  from k show ?thesis
  proof
    assume k1: "k = 1"
    from cdo_per_tensor[of encoding_min encoding_max A tensor "lg_p q" "lg_ch_axis q"] mn mx k1
    obtain dl off where cdo: "compute_delta_and_offset A tensor encoding_min encoding_max (lg_p q) (lg_ch_axis q) = (dl, off)"
      and sdl: "shape dl = [1]" and soff: "shape off = [1]"
      and edl: "elem dl [0] = f_div A (f_sub A (elem encoding_max [0]) (elem encoding_min [0])) (lg_p q)"
      and eoff: "elem off [0] = f_round A (f_div A (elem encoding_min [0])
                   (f_div A (f_sub A (elem encoding_max [0]) (elem encoding_min [0])) (lg_p q)))"
      by auto
    have sh: "shape off = shape dl" using sdl soff by simp
    have so: "shape (fst ?F) = bshape (shape tensor) (shape dl)"
      by (simp add: QuantizeDequantizeFunc_forward_def Let_def cdo sh bshape_idem)
    with i have i': "i \<in> set (indices (bshape (shape tensor) (shape dl)))" by simp
    then have "length i = length (bshape (shape tensor) [1])"
      by (simp add: in_indices_iff sdl)
    then have ine: "i \<noteq> []" by auto
    have bdl: "bcast dl i = elem dl [0]" and boff: "bcast off i = elem off [0]"
      using ine by (simp_all add: bcast_def sdl soff bidx_one)
    have bs: "bshape (shape tensor) (shape dl) = (if shape tensor = [] then [1] else shape tensor)"
      unfolding sdl by (rule bshape_one)
    have sv: "ctx_delta (snd ?F) = dl" "ctx_offset (snd ?F) = off"
      by (simp_all add: QuantizeDequantizeFunc_forward_def Let_def cdo)
    note g = forward_general[OF cdo sh i', of cast]
    show ?thesis
      using g(1) g(2) g(3) g(4)
      by (auto simp: Let_def chan_def k1 spec_delta_def spec_offset_def spec_quantize_def
          bdl boff edl eoff bs sv)
  next
    assume kc: "1 < k \<and> lg_ch_axis q < length (shape tensor) \<and> shape tensor ! lg_ch_axis q = k"
    from cdo_per_channel[of encoding_min k encoding_max "lg_ch_axis q" tensor A "lg_p q"] mn mx kc
    obtain dl off where cdo: "compute_delta_and_offset A tensor encoding_min encoding_max (lg_p q) (lg_ch_axis q) = (dl, off)"
      and sdl: "shape dl = (replicate (length (shape tensor)) 1)[lg_ch_axis q := k]" and sh: "shape off = shape dl"
      and b: "\<And>i. length i = length (shape tensor) \<Longrightarrow>
              bcast dl i = f_div A (f_sub A (elem encoding_max [i ! lg_ch_axis q]) (elem encoding_min [i ! lg_ch_axis q])) (lg_p q) \<and>
              bcast off i = f_round A (f_div A (elem encoding_min [i ! lg_ch_axis q])
                 (f_div A (f_sub A (elem encoding_max [i ! lg_ch_axis q]) (elem encoding_min [i ! lg_ch_axis q])) (lg_p q)))"
      by blast
    have bs: "bshape (shape tensor) (shape dl) = shape tensor"
      using kc bshape_channel[of "lg_ch_axis q" "shape tensor"] by (simp add: sdl)
    have so: "shape (fst ?F) = bshape (shape tensor) (shape dl)"
      by (simp add: QuantizeDequantizeFunc_forward_def Let_def cdo sh bshape_idem)
    with i have i': "i \<in> set (indices (bshape (shape tensor) (shape dl)))" by simp
    then have li: "length i = length (shape tensor)"
      by (simp add: in_indices_iff bs)
    have ne: "shape tensor \<noteq> []" using kc by auto
    have sv: "ctx_delta (snd ?F) = dl" "ctx_offset (snd ?F) = off"
      by (simp_all add: QuantizeDequantizeFunc_forward_def Let_def cdo)
    note g = forward_general[OF cdo sh i', of cast]
    show ?thesis
      using g(1) g(2) g(3) g(4) kc ne
      by (auto simp: Let_def chan_def spec_delta_def spec_offset_def spec_quantize_def
          b[OF li] bs sv)
  qed
qed

theorem forward_spec_witness:
  "shape emin2 = [2] \<and> shape emax2 = [2] \<and> lg_ch_axis lg2 < length (shape t22) \<and>
   shape t22 ! lg_ch_axis lg2 = 2 \<and>
   [1, 0] \<in> set (indices (shape (fst (QuantizeDequantizeFunc_forward exact cast_trunc t22 emin2 emax2 lg2)))) \<and>
   bcast (ctx_delta (snd (QuantizeDequantizeFunc_forward exact cast_trunc t22 emin2 emax2 lg2))) [1, 0] = 2 \<and>
   bcast (ctx_offset (snd (QuantizeDequantizeFunc_forward exact cast_trunc t22 emin2 emax2 lg2))) [1, 0] = 0 \<and>
   elem (fst (QuantizeDequantizeFunc_forward exact cast_trunc t22 emin2 emax2 lg2)) [1, 0] = 4 \<and>
   elem (ctx_mask_tensor (snd (QuantizeDequantizeFunc_forward exact cast_trunc t22 emin2 emax2 lg2))) [1, 0]"
proof -
  let ?F = "QuantizeDequantizeFunc_forward exact cast_trunc t22 emin2 emax2 lg2"
  have h1: "shape emin2 = [2]" and h2: "shape emax2 = [2]"
    by (simp_all add: emin2_def emax2_def)
  have ax: "lg_ch_axis lg2 = 0" by (simp add: lg2_def lg0_def)
  have st: "shape t22 = [2, 2]" by (simp add: t22_def)
  have h3: "2 = 1 \<or> (1 < (2::nat) \<and> lg_ch_axis lg2 < length (shape t22) \<and> shape t22 ! lg_ch_axis lg2 = 2)"
    by (simp add: ax st)
  have sF: "shape (fst ?F) = [2, 2]"
    by (simp add: QuantizeDequantizeFunc_forward_def compute_delta_and_offset_def Let_def
        broadcast_to_tensor_def h1 h2 st ax bshape_def pad_def len_def)
  have h4: "[1, 0] \<in> set (indices (shape (fst ?F)))"
    by (simp add: sF in_indices_iff nth_Cons split: nat.splits)
  have np: "lg_n lg2 = 0" "lg_p lg2 = 3" by (simp_all add: lg2_def lg0_def)
  have c: "chan 2 0 [1, 0] = 1" by (simp add: chan_def)
  have d: "spec_delta exact emin2 emax2 3 1 = 2"
    by (simp add: spec_delta_def exact_def emin2_def emax2_def vec_def)
  have r0: "torch_round 0 = 0"
    by (simp add: torch_round_def Let_def)
  have o': "spec_offset exact emin2 emax2 3 1 = 0"
    unfolding spec_offset_def d by (simp add: exact_def emin2_def vec_def r0)
  have bt: "bcast t22 [1, 0] = 3"
    by (simp add: bcast_def st bidx_def t22_def mat_def)
  have qv: "spec_quantize exact (bcast t22 [1, 0]) 2 0 = 2"
    unfolding bt by (simp add: spec_quantize_def exact_def torch_round_def Let_def)
  have "bcast (ctx_delta (snd ?F)) [1, 0] = 2 \<and> bcast (ctx_offset (snd ?F)) [1, 0] = 0 \<and>
        elem (fst ?F) [1, 0] = 4 \<and> elem (ctx_mask_tensor (snd ?F)) [1, 0]"
    using forward_spec[OF h1 h2 h3 h4]
    unfolding Let_def ax np c d o' qv
    by (simp add: exact_def clamp_def)
  with h1 h2 h4 ax st show ?thesis by simp
qed

text \<open>
  Two runs of the forward in single precision, with \<open>p = 255\<close> on the one-element tensor
  \<open>[1]\<close>. With the range \<open>[-1, 1]\<close> the delta is \<open>2 / 255\<close> rounded up, \<open>min / delta\<close> is
  just above \<open>-127.5\<close> and the offset is \<open>-127\<close>; the element is quantized to \<open>254\<close>, inside
  the bounds. With the empty range \<open>[1, 1]\<close> the delta is zero, the offset infinite, the
  output NaN and the mask false.
\<close>

lemma lg8_bounds: "get_n_and_p single 8 False False = Inr (lg_n lg8, lg_p lg8)"
  using get_n_and_p_single[of 8 False False] by (simp add: lg8_def)

lemma single_255_steps:
  "sub32 (Finite False 1) (Finite True 1) = Finite False 2"
  "div32 (Finite False 2) (Finite False 255) = Finite False (8421505 / 1073741824)"
  "div32 (Finite True 1) (Finite False (8421505 / 1073741824)) = Finite True (16711679 / 131072)"
  "div32 (Finite False 1) (Finite False (8421505 / 1073741824)) = Finite False (16711679 / 131072)"
  "rint32 (Finite True (16711679 / 131072)) = Finite True 127"
  "rint32 (Finite False (16711679 / 131072)) = Finite False 127"
  "sub32 (Finite False 127) (Finite True 127) = Finite False 254"
  "clamp32 (Finite False 254) (Finite False 0) (Finite False 255) = Finite False 254"
  "add32 (Finite False 254) (Finite True 127) = Finite False 127"
  "mul32 (Finite False 127) (Finite False (8421505 / 1073741824)) = Finite False (65279 / 65536)"
proof -
  show "sub32 (Finite False 1) (Finite True 1) = Finite False 2"
    using of_real32_int[of 2] by (simp add: sub32_def)
  show "div32 (Finite False 2) (Finite False 255) = Finite False (8421505 / 1073741824)"
    using mk32_normal[of "- 7" "2 / 255" "8421505 / 1073741824" False]
    by (simp add: pow2_def torch_round_def Let_def)
  have "mk32 s (1 / (8421505 / 1073741824)) = Finite s (16711679 / 131072)" for s
    using mk32_normal[of 6 "1 / (8421505 / 1073741824)" "16711679 / 131072" s]
    by (simp add: pow2_def torch_round_def Let_def)
  then show "div32 (Finite True 1) (Finite False (8421505 / 1073741824)) = Finite True (16711679 / 131072)"
    and "div32 (Finite False 1) (Finite False (8421505 / 1073741824)) = Finite False (16711679 / 131072)"
    by simp_all
  have "torch_round (16711679 / 131072) = 127"
    by (simp add: torch_round_def Let_def)
  then show "rint32 (Finite True (16711679 / 131072)) = Finite True 127"
    and "rint32 (Finite False (16711679 / 131072)) = Finite False 127"
    by simp_all
  show "sub32 (Finite False 127) (Finite True 127) = Finite False 254"
    using of_real32_int[of 254] by (simp add: sub32_def)
  show "clamp32 (Finite False 254) (Finite False 0) (Finite False 255) = Finite False 254"
    by (simp add: clamp32_def lt32_def)
  show "add32 (Finite False 254) (Finite True 127) = Finite False 127"
    using of_real32_int[of 127] by simp
  show "mul32 (Finite False 127) (Finite False (8421505 / 1073741824)) = Finite False (65279 / 65536)"
    using mk32_normal[of "- 1" "127 * (8421505 / 1073741824)" "65279 / 65536" False]
    by (simp add: pow2_def torch_round_def Let_def)
qed

lemma forward_single_example:
  "bcast (ctx_delta (snd (QuantizeDequantizeFunc_forward single cast_id
       (vec [Finite False 1]) (vec [Finite True 1]) (vec [Finite False 1]) lg8))) [0] =
     Finite False (8421505 / 1073741824) \<and>
   bcast (ctx_offset (snd (QuantizeDequantizeFunc_forward single cast_id
       (vec [Finite False 1]) (vec [Finite True 1]) (vec [Finite False 1]) lg8))) [0] = Finite True 127 \<and>
   elem (fst (QuantizeDequantizeFunc_forward single cast_id
       (vec [Finite False 1]) (vec [Finite True 1]) (vec [Finite False 1]) lg8)) [0] =
     Finite False (65279 / 65536) \<and>
   elem (ctx_mask_tensor (snd (QuantizeDequantizeFunc_forward single cast_id
       (vec [Finite False 1]) (vec [Finite True 1]) (vec [Finite False 1]) lg8))) [0]"
  by (simp add: QuantizeDequantizeFunc_forward_def compute_delta_and_offset_def Let_def
      single_def lg8_def vec_def bcast_def bidx_def len_def single_255_steps
      del: add32.simps mul32.simps div32.simps rint32.simps)

lemma single_zero_range_steps:
  "sub32 (Finite False 1) (Finite False 1) = Finite False 0"
  "div32 (Finite False 0) (Finite False 255) = Finite False 0"
  "div32 (Finite False 1) (Finite False 0) = Infinity False"
  "rint32 (Infinity False) = Infinity False"
  "sub32 (Infinity False) (Infinity False) = NaN"
  "clamp32 NaN (Finite False 0) (Finite False 255) = NaN"
  "add32 NaN (Infinity False) = NaN"
  "mul32 NaN (Finite False 0) = NaN"
  by (simp_all add: sub32_def mk32_def clamp32_def lt32_def)

lemma forward_single_zero_range:
  "elem (fst (QuantizeDequantizeFunc_forward single cast_id
       (vec [Finite False 1]) (vec [Finite False 1]) (vec [Finite False 1]) lg8)) [0] = NaN \<and>
   \<not> elem (ctx_mask_tensor (snd (QuantizeDequantizeFunc_forward single cast_id
       (vec [Finite False 1]) (vec [Finite False 1]) (vec [Finite False 1]) lg8))) [0]"
  by (simp add: QuantizeDequantizeFunc_forward_def compute_delta_and_offset_def Let_def
      single_def lg8_def vec_def bcast_def bidx_def len_def single_zero_range_steps
      del: add32.simps mul32.simps div32.simps rint32.simps)

section \<open>QuantizeDequantizeFunc: backward\<close>

text \<open>The three elementwise products of the backward pass.\<close>

lemma backward_elementwise:
  assumes sT: "shape (ctx_tensor c) = S" and sC: "shape (ctx_clamp_out c) = S"
    and sM: "shape (ctx_mask_tensor c) = S" and sG: "shape grad = S"
    and sO: "shape (ctx_offset c) = shape (ctx_delta c)"
    and f1: "bshape S (shape (ctx_delta c)) = S" and f2: "bshape (shape (ctx_delta c)) S = S"
  defines "m \<equiv> tmap (\<lambda>b. if b then 1 else 0::real) (ctx_mask_tensor c)"
  defines "sg \<equiv> tzip (*) (tzip (-) (tzip (+) (ctx_clamp_out c) (ctx_offset c))
                     (tzip (/) (tzip (*) (ctx_tensor c) m) (ctx_delta c))) grad"
  defines "og \<equiv> tzip (*) (tzip (*) (ctx_delta c) grad) (tmap (\<lambda>v. 1 - v) m)"
  shows "shape (tzip (*) grad m) = S"
    and "shape sg = S" and "shape og = S"
    and "i \<in> set (indices S) \<Longrightarrow> elem (tzip (*) grad m) i = elem grad i * mask_val c i"
    and "i \<in> set (indices S) \<Longrightarrow> elem sg i = spec_scale_grad c grad i"
    and "i \<in> set (indices S) \<Longrightarrow> elem og i = spec_offset_grad c grad i"
proof -
  show "shape (tzip (*) grad m) = S" by (simp add: m_def sG sM)
  show s1: "shape sg = S" by (simp add: sg_def m_def sG sM sT sC sO f1)
  show s2: "shape og = S" by (simp add: og_def m_def sG sM f2)
  assume i: "i \<in> set (indices S)"
  have sm: "shape m = S" by (simp add: m_def sM)
  have bm: "bcast m i = mask_val c i"
    using i by (simp add: m_def bcast_self sM mask_val_def)
  show "elem (tzip (*) grad m) i = elem grad i * mask_val c i"
    using i bm by (simp add: bcast_self sG)
  show "elem sg i = spec_scale_grad c grad i"
    using i bm
    by (simp add: sg_def spec_scale_grad_def bcast_tzip bcast_self sG sM sT sC sO f1 sm)
  show "elem og i = spec_offset_grad c grad i"
    using i bm
    by (simp add: og_def spec_offset_grad_def bcast_tzip bcast_self sG sM f2 sm)
qed

lemma minmax_grad_shape:
  fixes steps :: real
  assumes mn: "shape emin = [k]" and mx: "shape emax = [k]"
    and X: "shape X = r" and Y: "shape Y = r" and r: "r = [] \<or> r = [k]"
  defines "t1 \<equiv> tmap (\<lambda>v. v / steps) X"
  defines "t2 \<equiv> tzip (*) (tmap (\<lambda>v. steps / v) (tmap (\<lambda>v. v ^ 2) (tzip (-) emax emin))) Y"
  shows "shape (tzip (+) (tmap uminus t1) (tzip (*) emax t2)) = [k]"
    and "shape (tzip (-) t1 (tzip (*) emin t2)) = [k]"
  using r by (auto simp: t1_def t2_def mn mx X Y)

lemma minmax_grad:
  fixes steps :: real
  assumes mn: "shape emin = [k]" and mx: "shape emax = [k]"
    and X: "shape X = r" and Y: "shape Y = r" and r: "r = [] \<or> r = [k]" and ch: "ch < k"
  defines "t1 \<equiv> tmap (\<lambda>v. v / steps) X"
  defines "t2 \<equiv> tzip (*) (tmap (\<lambda>v. steps / v) (tmap (\<lambda>v. v ^ 2) (tzip (-) emax emin))) Y"
  shows "elem (tzip (+) (tmap uminus t1) (tzip (*) emax t2)) [ch] =
           - (bcast X [ch] / steps) +
             elem emax [ch] * (steps / (elem emax [ch] - elem emin [ch]) ^ 2 * bcast Y [ch])"
    and "elem (tzip (-) t1 (tzip (*) emin t2)) [ch] =
           bcast X [ch] / steps -
             elem emin [ch] * (steps / (elem emax [ch] - elem emin [ch]) ^ 2 * bcast Y [ch])"
proof -
  have i: "[ch] \<in> set (indices [k])" using ch by (simp add: in_indices_vec)
  have s2: "shape t2 = [k]"
    using r by (auto simp: t2_def mn mx Y)
  have b2: "bcast t2 [ch] = steps / (elem emax [ch] - elem emin [ch]) ^ 2 * bcast Y [ch]"
    unfolding t2_def using i r
    by (subst bcast_tzip) (auto simp: mn mx Y bcast_tzip bcast_self)
  have b1: "bcast t1 [ch] = bcast X [ch] / steps" by (simp add: t1_def)
  have be: "bcast (tzip (*) emax t2) [ch] = elem emax [ch] * bcast t2 [ch]"
    using i by (subst bcast_tzip) (simp_all add: mx s2 bcast_self)
  have bn: "bcast (tzip (*) emin t2) [ch] = elem emin [ch] * bcast t2 [ch]"
    using i by (subst bcast_tzip) (simp_all add: mn s2 bcast_self)
  show "elem (tzip (+) (tmap uminus t1) (tzip (*) emax t2)) [ch] =
           - (bcast X [ch] / steps) +
             elem emax [ch] * (steps / (elem emax [ch] - elem emin [ch]) ^ 2 * bcast Y [ch])"
    by (simp add: be b1 b2)
  show "elem (tzip (-) t1 (tzip (*) emin t2)) [ch] =
           bcast X [ch] / steps -
             elem emin [ch] * (steps / (elem emax [ch] - elem emin [ch]) ^ 2 * bcast Y [ch])"
    by (simp add: bn b1 b2)
qed

lemma sum_map_indices_cong:
  assumes "\<And>i. i \<in> set (indices S) \<Longrightarrow> f i = g i" and "set xs \<subseteq> set (indices S)"
  shows "sum_list (map f xs) = sum_list (map g xs)"
proof -
  have "map f xs = map g xs"
    using assms by (intro map_cong) auto
  then show ?thesis by (simp only:)
qed

lemma backward_per_tensor:
  assumes sT: "shape (ctx_tensor c) = S" and sC: "shape (ctx_clamp_out c) = S"
    and sM: "shape (ctx_mask_tensor c) = S" and sG: "shape grad = S"
    and sO: "shape (ctx_offset c) = shape (ctx_delta c)"
    and mn: "shape (ctx_encoding_min c) = [k]" and mx: "shape (ctx_encoding_max c) = [k]"
    and sD: "shape (ctx_delta c) = [1]" and ne: "S \<noteq> []"
  shows "\<exists>tg mng mxg. QuantizeDequantizeFunc_backward c grad = Inr (tg, mng, mxg) \<and>
           shape tg = S \<and> (\<forall>i\<in>set (indices S). elem tg i = elem grad i * mask_val c i) \<and>
           shape mng = [k] \<and> shape mxg = [k] \<and>
           (\<forall>ch<k.
              elem mng [ch] =
                - (sum_list (map (spec_scale_grad c grad) (indices S)) / ctx_steps c) +
                  elem (ctx_encoding_max c) [ch] *
                    (ctx_steps c / (elem (ctx_encoding_max c) [ch] - elem (ctx_encoding_min c) [ch]) ^ 2 *
                       sum_list (map (spec_offset_grad c grad) (indices S))) \<and>
              elem mxg [ch] =
                sum_list (map (spec_scale_grad c grad) (indices S)) / ctx_steps c -
                  elem (ctx_encoding_min c) [ch] *
                    (ctx_steps c / (elem (ctx_encoding_max c) [ch] - elem (ctx_encoding_min c) [ch]) ^ 2 *
                       sum_list (map (spec_offset_grad c grad) (indices S))))"
proof -
  define m where "m = tmap (\<lambda>b. if b then 1 else 0::real) (ctx_mask_tensor c)"
  define sg where "sg = tzip (*) (tzip (-) (tzip (+) (ctx_clamp_out c) (ctx_offset c))
                     (tzip (/) (tzip (*) (ctx_tensor c) m) (ctx_delta c))) grad"
  define og where "og = tzip (*) (tzip (*) (ctx_delta c) grad) (tmap (\<lambda>v. 1 - v) m)"
  define X where "X = tsum [0..<length S] sg"
  define Y where "Y = tsum [0..<length S] og"
  define mng where "mng = tzip (+) (tmap uminus (tmap (\<lambda>v. v / ctx_steps c) X))
      (tzip (*) (ctx_encoding_max c)
         (tzip (*) (tmap (\<lambda>v. ctx_steps c / v) (tmap (\<lambda>v. v ^ 2) (tzip (-) (ctx_encoding_max c) (ctx_encoding_min c)))) Y))"
  define mxg where "mxg = tzip (-) (tmap (\<lambda>v. v / ctx_steps c) X)
      (tzip (*) (ctx_encoding_min c)
         (tzip (*) (tmap (\<lambda>v. ctx_steps c / v) (tmap (\<lambda>v. v ^ 2) (tzip (-) (ctx_encoding_max c) (ctx_encoding_min c)))) Y))"
  have f1: "bshape S (shape (ctx_delta c)) = S"
    unfolding sD bshape_one using ne by simp
  have f2: "bshape (shape (ctx_delta c)) S = S"
    unfolding sD using ne by (rule bshape_one_left)
  note B = backward_elementwise[OF sT sC sM sG sO f1 f2]
  have E1: "shape (tzip (*) grad m) = S" unfolding m_def by (rule B(1))
  have E2: "shape sg = S" unfolding sg_def m_def by (rule B(2))
  have E3: "shape og = S" unfolding og_def m_def by (rule B(3))
  have E4: "\<And>i. i \<in> set (indices S) \<Longrightarrow> elem (tzip (*) grad m) i = elem grad i * mask_val c i"
    unfolding m_def by (rule B(4))
  have E5: "\<And>i. i \<in> set (indices S) \<Longrightarrow> elem sg i = spec_scale_grad c grad i"
    unfolding sg_def m_def by (rule B(5))
  have E6: "\<And>i. i \<in> set (indices S) \<Longrightarrow> elem og i = spec_offset_grad c grad i"
    unfolding og_def m_def by (rule B(6))
  have ld: "len (ctx_delta c) = 1" by (simp add: len_def sD)
  have bw: "QuantizeDequantizeFunc_backward c grad = Inr (tzip (*) grad m, mng, mxg)"
    by (simp add: QuantizeDequantizeFunc_backward_def Let_def ld sT m_def sg_def og_def X_def Y_def
        mng_def mxg_def)
  have sX: "shape X = []" and sY: "shape Y = []"
    unfolding X_def Y_def using tsum_all(1)[OF E2] tsum_all(1)[OF E3] by simp_all
  have eX: "elem X [] = sum_list (map (spec_scale_grad c grad) (indices S))"
    unfolding X_def tsum_all(2)[OF E2]
    by (rule sum_map_indices_cong[of S]) (simp_all add: E5)
  have eY: "elem Y [] = sum_list (map (spec_offset_grad c grad) (indices S))"
    unfolding Y_def tsum_all(2)[OF E3]
    by (rule sum_map_indices_cong[of S]) (simp_all add: E6)
  have r: "[] = [] \<or> [] = [k]" by simp
  note G = minmax_grad[OF mn mx sX sY r, of _ "ctx_steps c"]
  have G1: "shape mng = [k]"
    unfolding mng_def by (rule minmax_grad_shape(1)[OF mn mx sX sY r])
  have G2: "shape mxg = [k]"
    unfolding mxg_def by (rule minmax_grad_shape(2)[OF mn mx sX sY r])
  have G3: "\<And>ch. ch < k \<Longrightarrow> elem mng [ch] =
           - (bcast X [ch] / ctx_steps c) +
             elem (ctx_encoding_max c) [ch] *
               (ctx_steps c / (elem (ctx_encoding_max c) [ch] - elem (ctx_encoding_min c) [ch]) ^ 2 * bcast Y [ch])"
    unfolding mng_def by (rule G(1))
  have G4: "\<And>ch. ch < k \<Longrightarrow> elem mxg [ch] =
           bcast X [ch] / ctx_steps c -
             elem (ctx_encoding_min c) [ch] *
               (ctx_steps c / (elem (ctx_encoding_max c) [ch] - elem (ctx_encoding_min c) [ch]) ^ 2 * bcast Y [ch])"
    unfolding mxg_def by (rule G(2))
  show ?thesis
    unfolding bw
    using E1 E4 G1 G2 G3 G4
    by (simp add: bcast_scalar[OF sX] bcast_scalar[OF sY] eX eY)
qed

lemma backward_per_channel:
  assumes sT: "shape (ctx_tensor c) = S" and sC: "shape (ctx_clamp_out c) = S"
    and sM: "shape (ctx_mask_tensor c) = S" and sG: "shape grad = S"
    and sO: "shape (ctx_offset c) = shape (ctx_delta c)"
    and mn: "shape (ctx_encoding_min c) = [k]" and mx: "shape (ctx_encoding_max c) = [k]"
    and ld: "1 < len (ctx_delta c)" and rk: "1 < length S"
    and ax: "ctx_channel_axis c < length S" and sk: "S ! ctx_channel_axis c = k"
    and f1: "bshape S (shape (ctx_delta c)) = S" and f2: "bshape (shape (ctx_delta c)) S = S"
  shows "\<exists>tg mng mxg. QuantizeDequantizeFunc_backward c grad = Inr (tg, mng, mxg) \<and>
           shape tg = S \<and> (\<forall>i\<in>set (indices S). elem tg i = elem grad i * mask_val c i) \<and>
           shape mng = [k] \<and> shape mxg = [k] \<and>
           (\<forall>ch<k.
              elem mng [ch] =
                - (sum_list (map (spec_scale_grad c grad)
                     (filter (\<lambda>i. i ! ctx_channel_axis c = ch) (indices S))) / ctx_steps c) +
                  elem (ctx_encoding_max c) [ch] *
                    (ctx_steps c / (elem (ctx_encoding_max c) [ch] - elem (ctx_encoding_min c) [ch]) ^ 2 *
                       sum_list (map (spec_offset_grad c grad)
                         (filter (\<lambda>i. i ! ctx_channel_axis c = ch) (indices S)))) \<and>
              elem mxg [ch] =
                sum_list (map (spec_scale_grad c grad)
                     (filter (\<lambda>i. i ! ctx_channel_axis c = ch) (indices S))) / ctx_steps c -
                  elem (ctx_encoding_min c) [ch] *
                    (ctx_steps c / (elem (ctx_encoding_max c) [ch] - elem (ctx_encoding_min c) [ch]) ^ 2 *
                       sum_list (map (spec_offset_grad c grad)
                         (filter (\<lambda>i. i ! ctx_channel_axis c = ch) (indices S)))))"
proof -
  let ?a = "ctx_channel_axis c"
  let ?d = "[0..<?a] @ [Suc ?a..<length S]"
  define m where "m = tmap (\<lambda>b. if b then 1 else 0::real) (ctx_mask_tensor c)"
  define sg where "sg = tzip (*) (tzip (-) (tzip (+) (ctx_clamp_out c) (ctx_offset c))
                     (tzip (/) (tzip (*) (ctx_tensor c) m) (ctx_delta c))) grad"
  define og where "og = tzip (*) (tzip (*) (ctx_delta c) grad) (tmap (\<lambda>v. 1 - v) m)"
  define X where "X = tsum ?d sg"
  define Y where "Y = tsum ?d og"
  define mng where "mng = tzip (+) (tmap uminus (tmap (\<lambda>v. v / ctx_steps c) X))
      (tzip (*) (ctx_encoding_max c)
         (tzip (*) (tmap (\<lambda>v. ctx_steps c / v) (tmap (\<lambda>v. v ^ 2) (tzip (-) (ctx_encoding_max c) (ctx_encoding_min c)))) Y))"
  define mxg where "mxg = tzip (-) (tmap (\<lambda>v. v / ctx_steps c) X)
      (tzip (*) (ctx_encoding_min c)
         (tzip (*) (tmap (\<lambda>v. ctx_steps c / v) (tmap (\<lambda>v. v ^ 2) (tzip (-) (ctx_encoding_max c) (ctx_encoding_min c)))) Y))"
  note B = backward_elementwise[OF sT sC sM sG sO f1 f2]
  have E1: "shape (tzip (*) grad m) = S" unfolding m_def by (rule B(1))
  have E2: "shape sg = S" unfolding sg_def m_def by (rule B(2))
  have E3: "shape og = S" unfolding og_def m_def by (rule B(3))
  have E4: "\<And>i. i \<in> set (indices S) \<Longrightarrow> elem (tzip (*) grad m) i = elem grad i * mask_val c i"
    unfolding m_def by (rule B(4))
  have E5: "\<And>i. i \<in> set (indices S) \<Longrightarrow> elem sg i = spec_scale_grad c grad i"
    unfolding sg_def m_def by (rule B(5))
  have E6: "\<And>i. i \<in> set (indices S) \<Longrightarrow> elem og i = spec_offset_grad c grad i"
    unfolding og_def m_def by (rule B(6))
  have pp: "py_pop [0..<length S] ?a = Inr ?d"
    using ax by (rule pop_upt)
  have bw: "QuantizeDequantizeFunc_backward c grad = Inr (tzip (*) grad m, mng, mxg)"
    using ld rk
    by (simp add: QuantizeDequantizeFunc_backward_def Let_def sT pp m_def sg_def og_def X_def Y_def
        mng_def mxg_def)
  have sX: "shape X = [k]" and sY: "shape Y = [k]"
    unfolding X_def Y_def using tsum_channel(1)[OF E2 ax] tsum_channel(1)[OF E3 ax] sk by simp_all
  have eX: "\<And>ch. elem X [ch] = sum_list (map (spec_scale_grad c grad) (filter (\<lambda>i. i ! ?a = ch) (indices S)))"
    unfolding X_def tsum_channel(2)[OF E2 ax]
    by (rule sum_map_indices_cong[of S]) (simp_all add: E5)
  have eY: "\<And>ch. elem Y [ch] = sum_list (map (spec_offset_grad c grad) (filter (\<lambda>i. i ! ?a = ch) (indices S)))"
    unfolding Y_def tsum_channel(2)[OF E3 ax]
    by (rule sum_map_indices_cong[of S]) (simp_all add: E6)
  have r: "[k] = [] \<or> [k] = [k]" by simp
  note G = minmax_grad[OF mn mx sX sY r, of _ "ctx_steps c"]
  have G1: "shape mng = [k]"
    unfolding mng_def by (rule minmax_grad_shape(1)[OF mn mx sX sY r])
  have G2: "shape mxg = [k]"
    unfolding mxg_def by (rule minmax_grad_shape(2)[OF mn mx sX sY r])
  have G3: "\<And>ch. ch < k \<Longrightarrow> elem mng [ch] =
           - (bcast X [ch] / ctx_steps c) +
             elem (ctx_encoding_max c) [ch] *
               (ctx_steps c / (elem (ctx_encoding_max c) [ch] - elem (ctx_encoding_min c) [ch]) ^ 2 * bcast Y [ch])"
    unfolding mng_def by (rule G(1))
  have G4: "\<And>ch. ch < k \<Longrightarrow> elem mxg [ch] =
           bcast X [ch] / ctx_steps c -
             elem (ctx_encoding_min c) [ch] *
               (ctx_steps c / (elem (ctx_encoding_max c) [ch] - elem (ctx_encoding_min c) [ch]) ^ 2 * bcast Y [ch])"
    unfolding mxg_def by (rule G(2))
  have bX: "\<And>ch. ch < k \<Longrightarrow> bcast X [ch] = elem X [ch]"
    by (rule bcast_self) (simp add: sX in_indices_vec)
  have bY: "\<And>ch. ch < k \<Longrightarrow> bcast Y [ch] = elem Y [ch]"
    by (rule bcast_self) (simp add: sY in_indices_vec)
  show ?thesis
    unfolding bw
    using E1 E4 G1 G2 G3 G4
    by (simp add: bX bY eX eY)
qed

text \<open>
  C2, as amended. Let the saved tensor, clamped tensor, mask and the upstream gradient \<open>g\<close>
  have the same shape, the saved delta and offset have one shape, and the encoding min and
  max be vectors of length \<open>k\<close>. If either the saved delta has shape \<open>[1]\<close> (per-tensor
  encoding), or its first axis has more than one entry, the tensor has more than one axis
  and delta broadcasts to the tensor's shape, then backward returns the tensor gradient
  \<open>g * mask\<close> and, for every channel, the min gradient \<open>-scale_term + max * offset_term\<close> and
  the max gradient \<open>scale_term - min * offset_term\<close>, where \<open>scale_term\<close> is the sum of
  \<open>(clamped + offset - tensor * mask / delta) * g\<close> divided by \<open>steps\<close> and \<open>offset_term\<close> is
  \<open>steps / (max - min)^2\<close> times the sum of \<open>delta * g * (1 - mask)\<close>. In the first case both
  sums run over all axes, the channel axis included; in the second over all axes except
  the channel axis.
\<close>

theorem backward_spec:
  assumes sT: "shape (ctx_tensor c) = S" and sC: "shape (ctx_clamp_out c) = S"
    and sM: "shape (ctx_mask_tensor c) = S" and sG: "shape grad = S"
    and sO: "shape (ctx_offset c) = shape (ctx_delta c)"
    and mn: "shape (ctx_encoding_min c) = [k]" and mx: "shape (ctx_encoding_max c) = [k]"
    and cases: "(shape (ctx_delta c) = [1] \<and> S \<noteq> []) \<or>
                (1 < len (ctx_delta c) \<and> 1 < length S \<and> ctx_channel_axis c < length S \<and>
                 S ! ctx_channel_axis c = k \<and>
                 bshape S (shape (ctx_delta c)) = S \<and> bshape (shape (ctx_delta c)) S = S)"
  shows "\<exists>tg mng mxg. QuantizeDequantizeFunc_backward c grad = Inr (tg, mng, mxg) \<and>
           shape tg = S \<and> (\<forall>i\<in>set (indices S). elem tg i = elem grad i * mask_val c i) \<and>
           shape mng = [k] \<and> shape mxg = [k] \<and>
           (\<forall>ch<k.
              let scale_term = sum_list (map (spec_scale_grad c grad) (summed_indices c ch)) / ctx_steps c;
                  offset_term =
                    ctx_steps c / (elem (ctx_encoding_max c) [ch] - elem (ctx_encoding_min c) [ch]) ^ 2 *
                      sum_list (map (spec_offset_grad c grad) (summed_indices c ch))
              in elem mng [ch] = - scale_term + elem (ctx_encoding_max c) [ch] * offset_term \<and>
                 elem mxg [ch] = scale_term - elem (ctx_encoding_min c) [ch] * offset_term)"
  using cases
proof
  assume a: "shape (ctx_delta c) = [1] \<and> S \<noteq> []"
  then have si: "\<And>ch. summed_indices c ch = indices S"
    by (simp add: summed_indices_def sT)
  from a backward_per_tensor[OF sT sC sM sG sO mn mx] show ?thesis
    unfolding Let_def si by blast
next
  assume a: "1 < len (ctx_delta c) \<and> 1 < length S \<and> ctx_channel_axis c < length S \<and>
             S ! ctx_channel_axis c = k \<and>
             bshape S (shape (ctx_delta c)) = S \<and> bshape (shape (ctx_delta c)) S = S"
  then have "shape (ctx_delta c) \<noteq> [1]"
    by (auto simp: len_def)
  then have si: "\<And>ch. summed_indices c ch = filter (\<lambda>i. i ! ctx_channel_axis c = ch) (indices S)"
    by (simp add: summed_indices_def sT)
  from a backward_per_channel[OF sT sC sM sG sO mn mx] show ?thesis
    unfolding Let_def si by blast
qed

lemma forward_ctx:
  "ctx_tensor (snd (QuantizeDequantizeFunc_forward A cast t mn mx q)) = t"
  "ctx_encoding_min (snd (QuantizeDequantizeFunc_forward A cast t mn mx q)) = mn"
  "ctx_encoding_max (snd (QuantizeDequantizeFunc_forward A cast t mn mx q)) = mx"
  "ctx_steps (snd (QuantizeDequantizeFunc_forward A cast t mn mx q)) = lg_p q"
  "ctx_channel_axis (snd (QuantizeDequantizeFunc_forward A cast t mn mx q)) = lg_ch_axis q"
  "ctx_delta (snd (QuantizeDequantizeFunc_forward A cast t mn mx q)) =
     fst (compute_delta_and_offset A t mn mx (lg_p q) (lg_ch_axis q))"
  "ctx_offset (snd (QuantizeDequantizeFunc_forward A cast t mn mx q)) =
     snd (compute_delta_and_offset A t mn mx (lg_p q) (lg_ch_axis q))"
  by (simp_all add: QuantizeDequantizeFunc_forward_def Let_def split_def)

lemma indices22: "indices [2, 2] = [[0, 0], [0, 1], [1, 0], [1, 1]]"
  by (simp add: indices_def numeral_2_eq_2)

lemma lg2_fields: "lg_n lg2 = 0" "lg_p lg2 = 3" "lg_ch_axis lg2 = 0" "bitwidth lg2 = 2"
  "use_symmetric_encodings lg2 = False" "use_unsigned_symmetric lg2 = True"
  by (simp_all add: lg2_def lg0_def)

lemma round_vals: "torch_round 0 = 0" "torch_round (2 / 5) = 0" "torch_round (7 / 5) = 1"
  "torch_round (3 / 2) = 2" "torch_round (- (1 / 2)) = 0" "torch_round 7 = 7"
  "torch_round 3 = 3" "torch_round (- 1) = - 1"
  by (simp_all add: torch_round_def Let_def)

lemma ctx1_shapes:
  "shape (ctx_tensor ctx1) = [2, 2]" "shape (ctx_clamp_out ctx1) = [2, 2]"
  "shape (ctx_mask_tensor ctx1) = [2, 2]" "shape (ctx_delta ctx1) = [1]" "shape (ctx_offset ctx1) = [1]"
  "shape (ctx_encoding_min ctx1) = [1]" "shape (ctx_encoding_max ctx1) = [1]"
  by (simp_all add: ctx1_def QuantizeDequantizeFunc_forward_def compute_delta_and_offset_def exact_def Let_def
      t22_def emin1_def emax1_def bshape_def pad_def len_def)

lemma ctx1_vals:
  "spec_scale_grad ctx1 ones22 [0, 0] = - (2 / 5)" "spec_scale_grad ctx1 ones22 [0, Suc 0] = 3"
  "spec_scale_grad ctx1 ones22 [Suc 0, 0] = 0" "spec_scale_grad ctx1 ones22 [Suc 0, Suc 0] = 0"
  "spec_offset_grad ctx1 ones22 [0, 0] = 0" "spec_offset_grad ctx1 ones22 [0, Suc 0] = 1"
  "spec_offset_grad ctx1 ones22 [Suc 0, 0] = 0" "spec_offset_grad ctx1 ones22 [Suc 0, Suc 0] = 1"
  by (simp_all add: spec_scale_grad_def spec_offset_grad_def mask_val_def ctx1_def
      QuantizeDequantizeFunc_forward_def compute_delta_and_offset_def exact_def Let_def
      t22_def emin1_def emax1_def ones22_def vec_def mat_def bcast_def bidx_def bshape_def pad_def len_def
      lg2_fields round_vals clamp_def cast_trunc_def)

lemma ctx2_shapes:
  "shape (ctx_tensor ctx2) = [2, 2]" "shape (ctx_clamp_out ctx2) = [2, 2]"
  "shape (ctx_mask_tensor ctx2) = [2, 2]" "shape (ctx_delta ctx2) = [2, 1]" "shape (ctx_offset ctx2) = [2, 1]"
  "shape (ctx_encoding_min ctx2) = [2]" "shape (ctx_encoding_max ctx2) = [2]"
  by (simp_all add: ctx2_def QuantizeDequantizeFunc_forward_def compute_delta_and_offset_def exact_def Let_def
      broadcast_to_tensor_def t22_def emin2_def emax2_def bshape_def pad_def len_def lg2_fields)

lemma ctx2_vals:
  "spec_scale_grad ctx2 ones22 [0, 0] = - (2 / 5)" "spec_scale_grad ctx2 ones22 [0, Suc 0] = 3"
  "spec_offset_grad ctx2 ones22 [0, 0] = 0" "spec_offset_grad ctx2 ones22 [0, Suc 0] = 1"
  by (simp_all add: spec_scale_grad_def spec_offset_grad_def mask_val_def ctx2_def
      QuantizeDequantizeFunc_forward_def compute_delta_and_offset_def exact_def Let_def broadcast_to_tensor_def
      t22_def emin2_def emax2_def ones22_def vec_def mat_def bcast_def bidx_def bshape_def pad_def len_def
      lg2_fields round_vals clamp_def cast_trunc_def)

theorem backward_spec_witness:
  "shape (ctx_tensor ctx2) = [2, 2] \<and> shape (ctx_clamp_out ctx2) = [2, 2] \<and>
   shape (ctx_mask_tensor ctx2) = [2, 2] \<and> shape ones22 = [2, 2] \<and>
   shape (ctx_offset ctx2) = shape (ctx_delta ctx2) \<and>
   shape (ctx_encoding_min ctx2) = [2] \<and> shape (ctx_encoding_max ctx2) = [2] \<and>
   1 < len (ctx_delta ctx2) \<and> ctx_channel_axis ctx2 = 0 \<and>
   bshape [2, 2] (shape (ctx_delta ctx2)) = [2, 2] \<and>
   encoding_min_grad (QuantizeDequantizeFunc_backward ctx2 ones22) 0 = Inr (2 / 15)"
proof -
  have sG: "shape ones22 = [2, 2]" by (simp add: ones22_def)
  have sO: "shape (ctx_offset ctx2) = shape (ctx_delta ctx2)" by (simp add: ctx2_shapes)
  have ld: "1 < len (ctx_delta ctx2)" by (simp add: len_def ctx2_shapes)
  have st: "ctx_steps ctx2 = 3" and ax: "ctx_channel_axis ctx2 = 0"
    and emx: "elem (ctx_encoding_max ctx2) [0] = 3" and emn: "elem (ctx_encoding_min ctx2) [0] = 0"
    by (simp_all add: ctx2_def forward_ctx lg2_fields emax2_def emin2_def vec_def)
  have f1: "bshape [2, 2] (shape (ctx_delta ctx2)) = [2, 2]"
    and f2: "bshape (shape (ctx_delta ctx2)) [2, 2] = [2, 2]"
    by (simp_all add: ctx2_shapes bshape_def pad_def)
  have cs: "(shape (ctx_delta ctx2) = [1] \<and> [2, 2] \<noteq> ([]::nat list)) \<or>
            (1 < len (ctx_delta ctx2) \<and> 1 < length [2::nat, 2] \<and> ctx_channel_axis ctx2 < length [2::nat, 2] \<and>
             [2, 2] ! ctx_channel_axis ctx2 = 2 \<and>
             bshape [2, 2] (shape (ctx_delta ctx2)) = [2, 2] \<and> bshape (shape (ctx_delta ctx2)) [2, 2] = [2, 2])"
    using ld f1 f2 by (simp add: ax)
  from backward_spec[OF ctx2_shapes(1) ctx2_shapes(2) ctx2_shapes(3) sG sO ctx2_shapes(6) ctx2_shapes(7) cs]
  obtain tg mng mxg where bw: "QuantizeDequantizeFunc_backward ctx2 ones22 = Inr (tg, mng, mxg)"
    and m: "\<forall>ch<2.
              let scale_term = sum_list (map (spec_scale_grad ctx2 ones22) (summed_indices ctx2 ch)) / ctx_steps ctx2;
                  offset_term =
                    ctx_steps ctx2 / (elem (ctx_encoding_max ctx2) [ch] - elem (ctx_encoding_min ctx2) [ch]) ^ 2 *
                      sum_list (map (spec_offset_grad ctx2 ones22) (summed_indices ctx2 ch))
              in elem mng [ch] = - scale_term + elem (ctx_encoding_max ctx2) [ch] * offset_term \<and>
                 elem mxg [ch] = scale_term - elem (ctx_encoding_min ctx2) [ch] * offset_term"
    by blast
  have si: "summed_indices ctx2 0 = [[0, 0], [0, 1]]"
    by (simp add: summed_indices_def ctx2_shapes indices22 ax)
  from m have "elem mng [0] = 2 / 15"
    by (simp add: Let_def si ctx2_vals st emx emn)
  then have "encoding_min_grad (QuantizeDequantizeFunc_backward ctx2 ones22) 0 = Inr (2 / 15)"
    by (simp add: encoding_min_grad_def bw)
  with ctx2_shapes sG sO ld ax f1 show ?thesis by simp
qed

text \<open>
  C2 as stated fails for a per-tensor encoding: on the \<open>2 \<times> 2\<close> tensor the code adds the
  terms of all four elements, while the sum over all axes except the channel axis \<open>0\<close> has
  the terms of one row only.
\<close>

theorem backward_claim_counterexample:
  "encoding_min_grad (QuantizeDequantizeFunc_backward ctx1 ones22) 0 = Inr (17 / 15) \<and>
   claimed_min_grad ctx1 ones22 0 = 2 / 15 \<and>
   encoding_min_grad (QuantizeDequantizeFunc_backward ctx1 ones22) 0 \<noteq> Inr (claimed_min_grad ctx1 ones22 0)"
proof -
  have sG: "shape ones22 = [2, 2]" by (simp add: ones22_def)
  have sO: "shape (ctx_offset ctx1) = shape (ctx_delta ctx1)" by (simp add: ctx1_shapes)
  have ne: "[2::nat, 2] \<noteq> []" by simp
  from backward_per_tensor[OF ctx1_shapes(1) ctx1_shapes(2) ctx1_shapes(3) sG sO ctx1_shapes(6) ctx1_shapes(7)
      ctx1_shapes(4) ne]
  obtain tg mng mxg where bw: "QuantizeDequantizeFunc_backward ctx1 ones22 = Inr (tg, mng, mxg)"
    and m: "\<forall>ch<1. elem mng [ch] =
                - (sum_list (map (spec_scale_grad ctx1 ones22) (indices [2, 2])) / ctx_steps ctx1) +
                  elem (ctx_encoding_max ctx1) [ch] *
                    (ctx_steps ctx1 / (elem (ctx_encoding_max ctx1) [ch] - elem (ctx_encoding_min ctx1) [ch]) ^ 2 *
                       sum_list (map (spec_offset_grad ctx1 ones22) (indices [2, 2])))"
    by blast
  have st: "ctx_steps ctx1 = 3" and ax: "ctx_channel_axis ctx1 = 0"
    and emx: "elem (ctx_encoding_max ctx1) [0] = 3" and emn: "elem (ctx_encoding_min ctx1) [0] = 0"
    by (simp_all add: ctx1_def forward_ctx lg2_fields emax1_def emin1_def vec_def)
  from m have "elem mng [0] = 17 / 15"
    by (simp add: indices22 ctx1_vals st emx emn)
  then have a: "encoding_min_grad (QuantizeDequantizeFunc_backward ctx1 ones22) 0 = Inr (17 / 15)"
    by (simp add: encoding_min_grad_def bw)
  have b: "claimed_min_grad ctx1 ones22 0 = 2 / 15"
    by (simp add: claimed_min_grad_def claimed_scale_term_def claimed_offset_term_def
        ctx1_shapes indices22 ctx1_vals st ax emx emn)
  from a b show ?thesis by simp
qed

section \<open>Disabled quantizers\<close>

text \<open>
  C6. With \<open>enabled = False\<close> the static-grid forward and \<open>quantize_dequantize\<close> return the
  tensor with its shape and every element unchanged, and so does the learned-grid
  \<open>quantize_dequantize\<close>; the enabled learned-grid \<open>quantize_dequantize\<close> raises when the
  encoding min or max is \<open>None\<close>.
\<close>

theorem disabled_identity:
  "(\<not> enabled q \<longrightarrow>
      QuantizeDequantize_forward N half t q round_mode = Inr t \<and>
      sg_quantize_dequantize N half q t round_mode = Inr t) \<and>
   (\<not> enabled lq \<longrightarrow> lg_quantize_dequantize A cast lq lt encoding_min encoding_max = Inr lt) \<and>
   (enabled lq \<and> (encoding_min = None \<or> encoding_max = None) \<longrightarrow>
      lg_quantize_dequantize A cast lq lt encoding_min encoding_max =
        Inl (RuntimeError
          ''Forward pass used for compute_encodings differs from forward pass used during training''))"
  by (auto simp: QuantizeDequantize_forward_def sg_quantize_dequantize_def clone_def
      lg_quantize_dequantize_def split: option.splits)

theorem disabled_identity_witness:
  "\<not> enabled (sg1\<lparr>enabled := False\<rparr>) \<and>
   sg_quantize_dequantize native0 (\<lambda>v. v) (sg1\<lparr>enabled := False\<rparr>) t22 ''nearest'' = Inr t22 \<and>
   \<not> enabled (lg2\<lparr>enabled := False\<rparr>) \<and>
   lg_quantize_dequantize exact cast_trunc (lg2\<lparr>enabled := False\<rparr>) t22 None None = Inr t22 \<and>
   enabled lg2 \<and>
   lg_quantize_dequantize exact cast_trunc lg2 t22 None (Some emax2) =
     Inl (RuntimeError
       ''Forward pass used for compute_encodings differs from forward pass used during training'')"
proof -
  have a: "\<not> enabled (sg1\<lparr>enabled := False\<rparr>)" and b: "\<not> enabled (lg2\<lparr>enabled := False\<rparr>)"
    by simp_all
  have c: "enabled lg2" by (simp add: lg2_def lg0_def)
  from a disabled_identity[of "sg1\<lparr>enabled := False\<rparr>" native0 "\<lambda>v. v" t22 "''nearest''" lg2 exact cast_trunc t22 None None]
  have 1: "sg_quantize_dequantize native0 (\<lambda>v. v) (sg1\<lparr>enabled := False\<rparr>) t22 ''nearest'' = Inr t22"
    by blast
  from b disabled_identity[of sg1 native0 "\<lambda>v. v" t22 "''nearest''" "lg2\<lparr>enabled := False\<rparr>" exact cast_trunc t22 None None]
  have 2: "lg_quantize_dequantize exact cast_trunc (lg2\<lparr>enabled := False\<rparr>) t22 None None = Inr t22"
    by blast
  from c disabled_identity[of sg1 native0 "\<lambda>v. v" t22 "''nearest''" lg2 exact cast_trunc t22 None "Some emax2"]
  have 3: "lg_quantize_dequantize exact cast_trunc lg2 t22 None (Some emax2) =
     Inl (RuntimeError
       ''Forward pass used for compute_encodings differs from forward pass used during training'')"
    by blast
  from a b c 1 2 3 show ?thesis by blast
qed

section \<open>QuantizeDequantize: backward\<close>

text \<open>
  For the per-tensor quantizer with a computed encoding, backward gives the upstream
  gradient where the saved value lies in \<open>[min, max]\<close> and zero elsewhere. For the
  per-channel quantizer whose \<open>_encoding\<close> is a list, as \<open>compute_encoding\<close> leaves it, the
  attribute \<open>.min\<close> of the list raises.
\<close>

lemma sg_backward_per_tensor:
  assumes "enabled q" and "data_type q = DT_int" and "sg_class q = StaticGridPerTensorQuantizer"
    and "encoding_attr q = PyList (PyEnc e # rest)"
    and "shape output_grad = shape saved" and "i \<in> set (indices (shape saved))"
  shows "\<exists>g. QuantizeDequantize_backward q saved output_grad = Inr (g, None, None) \<and>
           shape g = shape saved \<and>
           elem g i = (if enc_min e \<le> elem saved i \<and> elem saved i \<le> enc_max e then elem output_grad i else 0)"
  using assms
  by (simp add: QuantizeDequantize_backward_def sg_encoding_def py_getitem_def attr_min_def attr_max_def
      compute_dloss_by_dx_def bcast_self)

lemma sg_backward_per_channel_raises:
  assumes "enabled q" and "data_type q = DT_int" and "sg_class q = StaticGridPerChannelQuantizer"
    and "encoding_attr q = PyList xs"
  shows "QuantizeDequantize_backward q saved output_grad = Inl AttributeError"
  using assms
  by (simp add: QuantizeDequantize_backward_def sg_encoding_def attr_min_def)

text \<open>
  C3 fails on the code for the per-channel quantizer: after \<open>compute_encoding\<close> on two
  engines with valid statistics the quantizer is enabled with integer data type and holds
  a list of two encodings, and backward raises \<open>AttributeError\<close> instead of returning a
  gradient.
\<close>

theorem sg_backward_per_channel_fails:
  "snd (compute_encoding native0 (sg0\<lparr>cppOp := [True, True]\<rparr>)) = None \<and>
   enabled sg_pc \<and> data_type sg_pc = DT_int \<and> sg_class sg_pc = StaticGridPerChannelQuantizer \<and>
   encoding_attr sg_pc =
     PyList [PyEnc \<lparr>enc_min = 0, enc_max = 1, enc_delta = 1 / 255, enc_offset = 0, bw = 8\<rparr>,
             PyEnc \<lparr>enc_min = 0, enc_max = 1, enc_delta = 1 / 255, enc_offset = 0, bw = 8\<rparr>] \<and>
   QuantizeDequantize_backward sg_pc t22 ones22 = Inl AttributeError"
  by (simp add: sg_pc_def compute_encoding_def sg0_def native0_def Let_def
      QuantizeDequantize_backward_def sg_encoding_def attr_min_def)

section \<open>ParameterQuantizer: backward\<close>

lemma compute_gradients_ok:
  "scaling q \<noteq> None \<Longrightarrow> offset q \<noteq> None \<Longrightarrow> \<exists>r. compute_gradients G p q g = Inr r"
  by (auto simp: compute_gradients_def Let_def)

lemma backward_loop_ok:
  "list_all (ready pq) ps \<Longrightarrow> \<exists>gs ps'. backward_pass_loop G pq ps = Inr (gs, ps')"
proof (induction ps)
  case Nil
  then show ?case by simp
next
  case (Cons np ps)
  obtain nm p where np: "np = (nm, p)" by (cases np)
  from Cons obtain gs ps' where r: "backward_pass_loop G pq ps = Inr (gs, ps')" by auto
  from Cons.prems np obtain q where q: "pq nm = Some q"
    and sc: "enabled q \<and> grad_attr p \<noteq> None \<longrightarrow> scaling q \<noteq> None \<and> offset q \<noteq> None"
    by (auto simp: ready_def split: option.splits)
  show ?case
  proof (cases "enabled q \<and> grad_attr p \<noteq> None")
    case True
    with sc compute_gradients_ok[of q G p "the (grad_attr p)"]
    obtain x where "compute_gradients G p q (the (grad_attr p)) = Inr x" by auto
    with True np q r show ?thesis by (cases x) auto
  next
    case False
    with np q r show ?thesis by auto
  qed
qed

lemma backward_loop_grads:
  "backward_pass_loop G pq ps = Inr (gs, ps') \<Longrightarrow>
     gs = concat (map (encoding_grads_of G pq) ps) \<and>
     (\<forall>np\<in>set ps. length (encoding_grads_of G pq np) = (if is_enabled pq np then 2 else 0))"
proof (induction ps arbitrary: gs ps')
  case Nil
  then show ?case by simp
next
  case (Cons np ps)
  obtain nm p where np: "np = (nm, p)" by (cases np)
  from Cons.prems np show ?case
    by (auto simp: encoding_grads_of_def is_enabled_def
        split: option.splits if_splits sum.splits prod.splits dest!: Cons.IH)
qed

lemma length_concat_pairs:
  "(\<forall>x\<in>set xs. length (f x) = (if P x then 2 else 0)) \<Longrightarrow>
     length (concat (map f xs)) = 2 * length (filter P xs)"
  by (induction xs) auto

lemma concat_pair_at:
  assumes len: "\<forall>x\<in>set xs. length (f x) = (if P x then 2 else 0)"
    and i: "i < length xs" and en: "P (xs ! i)"
  shows "take 2 (drop (2 * length (filter P (take i xs))) (concat (map f xs))) = f (xs ! i)"
proof -
  have xs: "xs = take i xs @ xs ! i # drop (Suc i) xs"
    using i by (simp add: id_take_nth_drop)
  have "\<forall>x\<in>set (take i xs). length (f x) = (if P x then 2 else 0)"
    using len by (meson in_set_takeD)
  then have l1: "length (concat (map f (take i xs))) = 2 * length (filter P (take i xs))"
    by (rule length_concat_pairs)
  have l2: "length (f (xs ! i)) = 2"
    using len i en by auto
  have "concat (map f xs) =
          concat (map f (take i xs)) @ f (xs ! i) @ concat (map f (drop (Suc i) xs))"
    by (subst xs) simp
  then show ?thesis
    using l1 l2 by simp
qed

text \<open>
  When every named parameter is ready, \<open>backward_pass_for_parameters\<close> returns the
  concatenation, in the order of the named parameters, of what each contributes: two
  entries for each parameter whose quantizer is enabled and nothing for a disabled one. The
  pair of an enabled parameter follows the pairs of the enabled parameters before it; it is
  \<open>[None, None]\<close> when the parameter has no gradient, and otherwise the gradient of the
  encoding min followed by the gradient of the encoding max.
\<close>

lemma compute_gradients_pair:
  assumes "scaling q = Some sc" and "offset q = Some off"
  shows "let a = lg_ch_axis q;
             sc1 = (if len sc > 1 \<and> length (shape (data p)) > 1 then broadcast_to_tensor (data p) sc a else sc);
             off1 = (if len off > 1 \<and> length (shape (data p)) > 1 then broadcast_to_tensor (data p) off a else off);
             gp = (sc1, off1, lg_n q, lg_p q);
             ir = compute_intermediate_result_for_learned_grid G (data p) sc1 off1
         in map_sum id snd (compute_gradients G p q g) =
              Inr (compute_dloss_by_dmin G (data p) g ir gp a, compute_dloss_by_dmax G (data p) g ir gp a)"
  using assms by (simp add: compute_gradients_def Let_def)

lemma backward_pass_enabled_pairs:
  assumes rd: "list_all (ready (param_quantizers w)) (named_parameters w)"
  shows "\<exists>gs w'. backward_pass_for_parameters G w = Inr (gs, w') \<and>
           gs = concat (map (encoding_grads_of G (param_quantizers w)) (named_parameters w)) \<and>
           length gs = 2 * length (filter (is_enabled (param_quantizers w)) (named_parameters w)) \<and>
           (\<forall>i<length (named_parameters w).
              is_enabled (param_quantizers w) (named_parameters w ! i) \<longrightarrow>
                take 2 (drop (2 * length (filter (is_enabled (param_quantizers w))
                                (take i (named_parameters w)))) gs) =
                  encoding_grads_of G (param_quantizers w) (named_parameters w ! i) \<and>
                (grad_attr (snd (named_parameters w ! i)) = None \<longrightarrow>
                   encoding_grads_of G (param_quantizers w) (named_parameters w ! i) = [None, None]) \<and>
                (\<forall>q g. param_quantizers w (fst (named_parameters w ! i)) = Some q \<and>
                        grad_attr (snd (named_parameters w ! i)) = Some g \<longrightarrow>
                   map_sum id (\<lambda>r. [Some (fst (snd r)), Some (snd (snd r))])
                     (compute_gradients G (snd (named_parameters w ! i)) q g) =
                   Inr (encoding_grads_of G (param_quantizers w) (named_parameters w ! i))))"
proof -
  let ?pq = "param_quantizers w" and ?ps = "named_parameters w"
  from backward_loop_ok[OF rd, of G]
  obtain gs ps' where r: "backward_pass_loop G ?pq ?ps = Inr (gs, ps')" by blast
  note g = backward_loop_grads[OF r]
  then have gs: "gs = concat (map (encoding_grads_of G ?pq) ?ps)"
    and len: "\<forall>np\<in>set ?ps. length (encoding_grads_of G ?pq np) = (if is_enabled ?pq np then 2 else 0)"
    by blast+
  have bw: "backward_pass_for_parameters G w = Inr (gs, w\<lparr>named_parameters := ps'\<rparr>)"
    by (simp add: backward_pass_for_parameters_def r)
  have l: "length gs = 2 * length (filter (is_enabled ?pq) ?ps)"
    unfolding gs using len by (rule length_concat_pairs)
  have pos: "\<And>i. i < length ?ps \<Longrightarrow> is_enabled ?pq (?ps ! i) \<Longrightarrow>
      take 2 (drop (2 * length (filter (is_enabled ?pq) (take i ?ps))) gs) = encoding_grads_of G ?pq (?ps ! i)"
    unfolding gs using len by (rule concat_pair_at)
  have none: "\<And>i. i < length ?ps \<Longrightarrow> is_enabled ?pq (?ps ! i) \<Longrightarrow> grad_attr (snd (?ps ! i)) = None \<Longrightarrow>
      encoding_grads_of G ?pq (?ps ! i) = [None, None]"
    by (auto simp: is_enabled_def encoding_grads_of_def split: option.splits)
  have some: "\<And>i q g. i < length ?ps \<Longrightarrow> is_enabled ?pq (?ps ! i) \<Longrightarrow>
      ?pq (fst (?ps ! i)) = Some q \<Longrightarrow> grad_attr (snd (?ps ! i)) = Some g \<Longrightarrow>
      map_sum id (\<lambda>r. [Some (fst (snd r)), Some (snd (snd r))]) (compute_gradients G (snd (?ps ! i)) q g) =
        Inr (encoding_grads_of G ?pq (?ps ! i))"
  proof -
    fix i q g assume i: "i < length ?ps" and en: "is_enabled ?pq (?ps ! i)"
      and q: "?pq (fst (?ps ! i)) = Some q" and gr: "grad_attr (snd (?ps ! i)) = Some g"
    from len i en have "length (encoding_grads_of G ?pq (?ps ! i)) = 2" by auto
    with en q gr show "map_sum id (\<lambda>r. [Some (fst (snd r)), Some (snd (snd r))])
        (compute_gradients G (snd (?ps ! i)) q g) = Inr (encoding_grads_of G ?pq (?ps ! i))"
      by (auto simp: is_enabled_def encoding_grads_of_def split: option.splits sum.splits)
  qed
  show ?thesis
    using bw gs l pos none some by blast
qed

lemma backward_pass_enabled_pairs_example:
  "list_all (ready (param_quantizers w1)) (named_parameters w1) \<and>
   length (named_parameters w1) = 2 \<and>
   filter (is_enabled (param_quantizers w1)) (named_parameters w1) =
     [(''weight'', \<lparr>data = t22, grad_attr = Some ones22\<rparr>)] \<and>
   map_sum id fst (backward_pass_for_parameters G0 w1) = Inr [Some (tmap uminus ones22), Some ones22]"
  by (simp add: w1_def ready_def is_enabled_def lg2_def lg0_def backward_pass_for_parameters_def
      compute_gradients_def G0_def Let_def)

text \<open>
  C8 fails on the code when a quantizer is disabled. In \<open>w0\<close> the weight quantizer is
  disabled and the bias quantizer is enabled. Forward takes the bias encodings from
  positions 2 and 3 of its encoding parameters, so it must be given four (with two it ends
  in an index error); backward returns a single pair for the two parameters, and with the
  upstream gradient and the entry for the wrapper four gradients for the six inputs of
  forward.
\<close>

theorem backward_pass_skips_disabled_parameter:
  "length (named_parameters w0) = 2 \<and>
   \<not> isl (quantize_parameters exact cast_trunc w0 [None, None, Some emin1, Some emax1]) \<and>
   quantize_parameters exact cast_trunc w0 [Some emin1, Some emax1] = Inl IndexError \<and>
   map_sum id fst (backward_pass_for_parameters G0 w0) = Inr [None, None] \<and>
   map_sum id fst (ParameterQuantizer_backward G0 w0 [ones22]) = Inr [Some ones22, None, None, None]"
  by (simp add: w0_def quantize_parameters_def backward_pass_for_parameters_def
      ParameterQuantizer_backward_def lg2_def lg0_def
      lg_quantize_dequantize_def compute_scaling_offset_def Let_def)

end
